theory Spec2Isabelle
  imports Complex_Main
begin

section \<open>Conventions of the embedding\<close>

text \<open>
  The TypeScript sources are embedded function by function.
  \<^item> A TypeScript \<open>string\<close> is a \<open>string\<close>; an optional or nullable value is an \<open>option\<close>.
    The string holds code units below 256 only (a \<open>char\<close> of the model).
  \<^item> A TypeScript \<open>number\<close> is a value of the type \<open>number\<close> below: a finite number, which
    is a rational here, \<open>NaN\<close>, or one of the two infinities. The sources embedded here
    compare numbers with integer constants only.
  \<^item> A \<open>Date\<close> that the clock or a timestamp column delivers is its number of milliseconds
    since the epoch, a \<open>nat\<close>; every \<open>new Date()\<close> of the source is an explicit clock
    reading passed to the function. A \<open>Date\<close> that a caller supplies (the planned dates)
    is a value of the type \<open>Date\<close> below, which may be the invalid date.
  \<^item> \<open>undefined\<close> is \<open>None\<close>; so is the \<open>null\<close> that a repository reads from a NULL
    column.
  \<^item> \<open>Result.success(v)\<close> is \<open>Inr v\<close>, \<open>Result.failure(e)\<close> is \<open>Inl e\<close>. An exception
    caught by a \<open>try/catch\<close> that turns it into \<open>Result.failure\<close> is the same \<open>Inl\<close>.
  \<^item> A method that mutates its object returns the result together with the new object.
\<close>

section \<open>Numbers and dates\<close>

datatype number = Num rat | NaN | PosInfinity | NegInfinity

text \<open>\<open>a < b\<close> and \<open>a <= b\<close> on numbers: false as soon as an operand is \<open>NaN\<close>.\<close>

fun lt :: "number \<Rightarrow> number \<Rightarrow> bool" where
  "lt (Num a) (Num b) = (a < b)"
| "lt (Num a) PosInfinity = True"
| "lt NegInfinity (Num b) = True"
| "lt NegInfinity PosInfinity = True"
| "lt a b = False"

fun le :: "number \<Rightarrow> number \<Rightarrow> bool" where
  "le (Num a) (Num b) = (a \<le> b)"
| "le NaN b = False"
| "le a NaN = False"
| "le NegInfinity b = True"
| "le a PosInfinity = True"
| "le a b = False"

text \<open>\<open>a > b\<close> and \<open>a >= b\<close>\<close>

definition gt :: "number \<Rightarrow> number \<Rightarrow> bool" where
  "gt a b = lt b a"

definition ge :: "number \<Rightarrow> number \<Rightarrow> bool" where
  "ge a b = le b a"

text \<open>\<open>Number.isInteger\<close>\<close>

definition Number_isInteger :: "number \<Rightarrow> bool" where
  "Number_isInteger v \<longleftrightarrow> (case v of Num r \<Rightarrow> r = of_int \<lfloor>r\<rfloor> | _ \<Rightarrow> False)"

text \<open>A \<open>Date\<close> object: a time value in milliseconds since the epoch, or the invalid date
  that \<open>new Date(text)\<close> builds from a text it cannot read.\<close>

datatype Date = DateAt int | InvalidDate

text \<open>\<open>a > b\<close> on dates compares the time values as numbers; the time value of the invalid
  date is \<open>NaN\<close>.\<close>

definition timeValue :: "Date \<Rightarrow> number" where
  "timeValue d = (case d of DateAt t \<Rightarrow> Num (of_int t) | InvalidDate \<Rightarrow> NaN)"

text \<open>
  \<open>Number(s)\<close> for a string is \<open>NaN\<close> unless the string, without the white space at its
  ends, is a numeric literal. A numeric literal holds at most two hyphens, the sign of
  the number and the sign of its exponent, so a string that holds more is not one. The
  value of the other strings is the parameter \<open>literalValue\<close>.
\<close>

definition hyphens :: "string \<Rightarrow> nat" where
  "hyphens s = length (filter (\<lambda>c. c = CHR ''-'') s)"

definition Number_of :: "(string \<Rightarrow> number) \<Rightarrow> string \<Rightarrow> number" where
  "Number_of literalValue s = (if 2 < hyphens s then NaN else literalValue s)"

section \<open>Errors\<close>

text \<open>
  Every \<open>new Error(...)\<close> site of the sources embedded here has its own constructor; the
  arguments are the values interpolated into the message.
\<close>

datatype error =
    TaskTitleRequired                 \<comment> \<open>'Task title is required'\<close>
  | PhaseCodeRequired                 \<comment> \<open>'Phase code is required'\<close>
  | CreatorRequired                   \<comment> \<open>'Creator is required'\<close>
  | PriorityOutOfRange                \<comment> \<open>'Priority must be between 1 and 5'\<close>
  | ProgressOutOfRange                \<comment> \<open>'Progress must be between 0 and 100'\<close>
  | PlannedDatesOrder                 \<comment> \<open>'Planned start date must be before planned end date'\<close>
  | InvalidUUID string                \<comment> \<open>'Invalid UUID format: ...'\<close>
  | InvalidPhaseCode string           \<comment> \<open>'Invalid phase code: ...'\<close>
  | InvalidPriority number             \<comment> \<open>'Invalid priority value: ... Must be between 1 and 5.'\<close>
  | SubTaskTitleRequired              \<comment> \<open>'SubTask title is required'\<close>
  | TaskIdRequired                    \<comment> \<open>'Task ID is required'\<close>
  | TaskNotFound string               \<comment> \<open>'Task with ID ... not found'\<close>
  | SubTaskNotFound string            \<comment> \<open>'SubTask with ID ... not found'\<close>
  | ProfileDoesNotExist string        \<comment> \<open>'Le profil ... n'existe pas'\<close>
  | ProfileNotFound string            \<comment> \<open>'Profile with code ... not found'\<close>
  | ProfileCodeRequired               \<comment> \<open>'Profile code is required'\<close>
  | ProfileNameRequired               \<comment> \<open>'Profile name is required'\<close>
  | ProfileCodeTooLong                \<comment> \<open>'Profile code must be less than 8 characters'\<close>
  | ProfileCodeFormat                 \<comment> \<open>'Profile code must contain only uppercase letters, ...'\<close>
  | ProfileNameTooLong                \<comment> \<open>'Profile name must be less than 64 characters'\<close>
  | ForbiddenModify string string     \<comment> \<open>'Forbidden - user ... cannot modify task ...'\<close>
  | ForbiddenChangePhase string string \<comment> \<open>'Forbidden - user ... cannot change phase for task ...'\<close>
  | ForbiddenAddSubTask string string \<comment> \<open>'Forbidden - user ... cannot add subtask to task ...'\<close>
  | ForbiddenUpdateSubTask string string \<comment> \<open>'Forbidden - user ... cannot update subtask ...'\<close>
  | TaskBeingEdited string            \<comment> \<open>'Task ... is currently being edited by another user'\<close>
  | DuplicateKey string               \<comment> \<open>the store rejects a row whose primary key is taken (table name)\<close>
  | ForeignKeyViolation string        \<comment> \<open>the store rejects a row that refers to no row (table name)\<close>
  | InvalidInputSyntax string         \<comment> \<open>the store cannot read a parameter as the type of its column (type name)\<close>
  | TypeError string                  \<comment> \<open>reading a property of \<open>undefined\<close>\<close>
  | RepositoryError string            \<comment> \<open>any other failure reported by a repository port\<close>

section \<open>Value objects (ValueObjects.ts)\<close>

datatype uuid_shape = Hex | Dash | Other

definition isHexDigit :: "char \<Rightarrow> bool" where
  "isHexDigit c \<longleftrightarrow> c \<in> set ''0123456789abcdefABCDEF''"

definition uuidShape :: "char \<Rightarrow> uuid_shape" where
  "uuidShape c = (if isHexDigit c then Hex else if c = CHR ''-'' then Dash else Other)"

text \<open>\<open>UUID.isValid\<close>: the whole string matches
  \<^verbatim>\<open>/^[0-9a-f]{8}-[0-9a-f]{4}-[0-9a-f]{4}-[0-9a-f]{4}-[0-9a-f]{12}$/i\<close>.\<close>

definition UUID_isValid :: "string \<Rightarrow> bool" where
  "UUID_isValid v \<longleftrightarrow>
     map uuidShape v =
       replicate 8 Hex @ [Dash] @ replicate 4 Hex @ [Dash] @ replicate 4 Hex @ [Dash]
         @ replicate 4 Hex @ [Dash] @ replicate 12 Hex"

text \<open>\<open>new UUID(value)\<close> throws on an invalid value.\<close>

definition new_UUID :: "string \<Rightarrow> error + string" where
  "new_UUID v = (if \<not> UUID_isValid v then Inl (InvalidUUID v) else Inr v)"

definition validCodes :: "string list" where
  "validCodes = [''M'', ''E'', ''D'', ''A'', ''C'', ''A2'', ''P'']"

definition PhaseCode_isValid :: "string \<Rightarrow> bool" where
  "PhaseCode_isValid v \<longleftrightarrow> v \<in> set validCodes"

definition new_PhaseCode :: "string \<Rightarrow> error + string" where
  "new_PhaseCode v = (if \<not> PhaseCode_isValid v then Inl (InvalidPhaseCode v) else Inr v)"

text \<open>\<open>Priority.isValid\<close>: \<open>value >= 1 && value <= 5 && Number.isInteger(value)\<close>\<close>

definition Priority_isValid :: "number \<Rightarrow> bool" where
  "Priority_isValid v \<longleftrightarrow> ge v (Num 1) \<and> le v (Num 5) \<and> Number_isInteger v"

definition new_Priority :: "number \<Rightarrow> error + number" where
  "new_Priority v = (if \<not> Priority_isValid v then Inl (InvalidPriority v) else Inr v)"

datatype RaciLetter = Letter_R | Letter_A | Letter_C | Letter_I

section \<open>Strings\<close>

text \<open>
  \<open>String.prototype.trim\<close> removes white space and line terminators at both ends. Among
  the code units below 256 these are tab, line feed, vertical tab, form feed, carriage
  return, space and the no-break space U+00A0.
\<close>

definition isWhiteSpace :: "char \<Rightarrow> bool" where
  "isWhiteSpace c \<longleftrightarrow>
     c \<in> set [CHR 0x09, CHR 0x0A, CHR 0x0B, CHR 0x0C, CHR 0x0D, CHR 0x20, CHR 0xA0]"

definition trim :: "string \<Rightarrow> string" where
  "trim s = rev (dropWhile isWhiteSpace (rev (dropWhile isWhiteSpace s)))"

text \<open>\<open>!title || title.trim().length === 0\<close>\<close>

definition isBlank :: "string \<Rightarrow> bool" where
  "isBlank s \<longleftrightarrow> s = [] \<or> length (trim s) = 0"

text \<open>\<open>v ? f(v) : undefined\<close> for an optional string: \<open>undefined\<close> and the empty string
  are both falsy.\<close>

definition truthy :: "string option \<Rightarrow> bool" where
  "truthy v \<longleftrightarrow> (case v of None \<Rightarrow> False | Some s \<Rightarrow> s \<noteq> [])"

section \<open>The Task entity (Task.ts)\<close>

record TaskProps =
  props_id :: "string option"
  props_phaseCode :: string
  props_pageId :: "string option"
  props_title :: string
  props_description :: "string option"
  props_priority :: number
  props_ownerUuid :: "string option"
  props_progress :: number
  props_createdBy :: string
  props_createdAt :: "nat option"
  props_updatedAt :: "nat option"
  props_plannedStart :: "Date option"
  props_plannedEnd :: "Date option"

text \<open>The private fields of the class. \<open>toObject()\<close> copies every field into a
  \<open>TaskDTO\<close> of the same shape, so the DTO is the same record.\<close>

record Task =
  Task_id :: string
  Task_phaseCode :: string
  Task_pageId :: "string option"
  Task_title :: string
  Task_description :: "string option"
  Task_priority :: number
  Task_ownerUuid :: "string option"
  Task_progress :: number
  Task_createdBy :: string
  Task_createdAt :: nat
  Task_updatedAt :: nat
  Task_plannedStart :: "Date option"
  Task_plannedEnd :: "Date option"

type_synonym TaskDTO = Task

definition Task_toObject :: "Task \<Rightarrow> TaskDTO" where
  "Task_toObject t = t"

text \<open>\<open>start && end && start > end\<close>: a \<open>Date\<close> object is truthy, the invalid date
  included.\<close>

definition datesOutOfOrder :: "Date option \<Rightarrow> Date option \<Rightarrow> bool" where
  "datesOutOfOrder start end' \<longleftrightarrow>
     (case start of None \<Rightarrow> False
      | Some s \<Rightarrow> (case end' of None \<Rightarrow> False | Some e \<Rightarrow> gt (timeValue s) (timeValue e)))"

text \<open>
  The private constructor. \<open>gen\<close> is the string that \<open>UUID.create()\<close> draws, \<open>now\<close> the
  clock read by \<open>new Date()\<close>. The value objects are built in the order of the source, and
  the first one that throws decides the error.
\<close>

definition new_Task :: "string \<Rightarrow> nat \<Rightarrow> TaskProps \<Rightarrow> error + Task" where
  "new_Task gen now props =
     (case (if truthy (props_id props) then new_UUID (the (props_id props)) else new_UUID gen) of
        Inl e \<Rightarrow> Inl e
      | Inr i \<Rightarrow>
     (case new_PhaseCode (props_phaseCode props) of
        Inl e \<Rightarrow> Inl e
      | Inr ph \<Rightarrow>
     (case new_Priority (props_priority props) of
        Inl e \<Rightarrow> Inl e
      | Inr pr \<Rightarrow>
     (case (if truthy (props_ownerUuid props)
            then map_sum (\<lambda>e. e) Some (new_UUID (the (props_ownerUuid props)))
            else Inr None) of
        Inl e \<Rightarrow> Inl e
      | Inr ow \<Rightarrow>
     (case new_UUID (props_createdBy props) of
        Inl e \<Rightarrow> Inl e
      | Inr cb \<Rightarrow>
        Inr \<lparr> Task_id = i, Task_phaseCode = ph, Task_pageId = props_pageId props,
              Task_title = props_title props, Task_description = props_description props,
              Task_priority = pr, Task_ownerUuid = ow, Task_progress = props_progress props,
              Task_createdBy = cb,
              Task_createdAt = (case props_createdAt props of Some d \<Rightarrow> d | None \<Rightarrow> now),
              Task_updatedAt = (case props_updatedAt props of Some d \<Rightarrow> d | None \<Rightarrow> now),
              Task_plannedStart = props_plannedStart props,
              Task_plannedEnd = props_plannedEnd props \<rparr>)))))"

text \<open>\<open>Task.create\<close>\<close>

definition Task_create :: "string \<Rightarrow> nat \<Rightarrow> TaskProps \<Rightarrow> error + Task" where
  "Task_create gen now props =
     (if isBlank (props_title props) then Inl TaskTitleRequired
      else if props_phaseCode props = [] then Inl PhaseCodeRequired
      else if props_createdBy props = [] then Inl CreatorRequired
      else if lt (props_priority props) (Num 1) \<or> gt (props_priority props) (Num 5)
        then Inl PriorityOutOfRange
      else if lt (props_progress props) (Num 0) \<or> gt (props_progress props) (Num 100)
        then Inl ProgressOutOfRange
      else if datesOutOfOrder (props_plannedStart props) (props_plannedEnd props)
        then Inl PlannedDatesOrder
      else new_Task gen now props)"

text \<open>The setters. Each returns its \<open>Result\<close> and the object as the call leaves it.\<close>

definition updatePhase :: "nat \<Rightarrow> string \<Rightarrow> Task \<Rightarrow> (error + unit) \<times> Task" where
  "updatePhase now phaseCode t =
     (case new_PhaseCode phaseCode of
        Inl e \<Rightarrow> (Inl e, t)
      | Inr ph \<Rightarrow> (Inr (), t\<lparr>Task_phaseCode := ph, Task_updatedAt := now\<rparr>))"

definition updateTitle :: "nat \<Rightarrow> string \<Rightarrow> Task \<Rightarrow> (error + unit) \<times> Task" where
  "updateTitle now title t =
     (if isBlank title then (Inl TaskTitleRequired, t)
      else (Inr (), t\<lparr>Task_title := title, Task_updatedAt := now\<rparr>))"

definition updateDescription :: "nat \<Rightarrow> string option \<Rightarrow> Task \<Rightarrow> (error + unit) \<times> Task" where
  "updateDescription now description t =
     (Inr (), t\<lparr>Task_description := description, Task_updatedAt := now\<rparr>)"

definition updatePriority :: "nat \<Rightarrow> number \<Rightarrow> Task \<Rightarrow> (error + unit) \<times> Task" where
  "updatePriority now priority t =
     (case new_Priority priority of
        Inl e \<Rightarrow> (Inl e, t)
      | Inr pr \<Rightarrow> (Inr (), t\<lparr>Task_priority := pr, Task_updatedAt := now\<rparr>))"

definition updateOwner :: "nat \<Rightarrow> string option \<Rightarrow> Task \<Rightarrow> (error + unit) \<times> Task" where
  "updateOwner now ownerUuid t =
     (case (if truthy ownerUuid then map_sum (\<lambda>e. e) Some (new_UUID (the ownerUuid))
            else Inr None) of
        Inl e \<Rightarrow> (Inl e, t)
      | Inr ow \<Rightarrow> (Inr (), t\<lparr>Task_ownerUuid := ow, Task_updatedAt := now\<rparr>))"

definition updateProgress :: "nat \<Rightarrow> number \<Rightarrow> Task \<Rightarrow> (error + unit) \<times> Task" where
  "updateProgress now progress t =
     (if lt progress (Num 0) \<or> gt progress (Num 100) then (Inl ProgressOutOfRange, t)
      else (Inr (), t\<lparr>Task_progress := progress, Task_updatedAt := now\<rparr>))"

definition updatePlannedDates ::
  "nat \<Rightarrow> Date option \<Rightarrow> Date option \<Rightarrow> Task \<Rightarrow> (error + unit) \<times> Task" where
  "updatePlannedDates now start end' t =
     (if datesOutOfOrder start end' then (Inl PlannedDatesOrder, t)
      else (Inr (), t\<lparr>Task_plannedStart := start, Task_plannedEnd := end',
                      Task_updatedAt := now\<rparr>))"

section \<open>The SubTask entity (SubTask.ts)\<close>

record SubTaskProps =
  sprops_id :: "string option"
  sprops_taskId :: string
  sprops_title :: string
  sprops_description :: "string option"
  sprops_completed :: bool
  sprops_createdBy :: string
  sprops_createdAt :: "nat option"
  sprops_updatedAt :: "nat option"

record SubTask =
  SubTask_id :: string
  SubTask_taskId :: string
  SubTask_title :: string
  SubTask_description :: "string option"
  SubTask_completed :: bool
  SubTask_createdBy :: string
  SubTask_createdAt :: nat
  SubTask_updatedAt :: nat

type_synonym SubTaskDTO = SubTask

definition SubTask_toObject :: "SubTask \<Rightarrow> SubTaskDTO" where
  "SubTask_toObject st = st"

definition new_SubTask :: "string \<Rightarrow> nat \<Rightarrow> SubTaskProps \<Rightarrow> error + SubTask" where
  "new_SubTask gen now props =
     (case (if truthy (sprops_id props) then new_UUID (the (sprops_id props)) else new_UUID gen) of
        Inl e \<Rightarrow> Inl e
      | Inr i \<Rightarrow>
     (case new_UUID (sprops_taskId props) of
        Inl e \<Rightarrow> Inl e
      | Inr ti \<Rightarrow>
     (case new_UUID (sprops_createdBy props) of
        Inl e \<Rightarrow> Inl e
      | Inr cb \<Rightarrow>
        Inr \<lparr> SubTask_id = i, SubTask_taskId = ti, SubTask_title = sprops_title props,
              SubTask_description = sprops_description props,
              SubTask_completed = sprops_completed props, SubTask_createdBy = cb,
              SubTask_createdAt = (case sprops_createdAt props of Some d \<Rightarrow> d | None \<Rightarrow> now),
              SubTask_updatedAt = (case sprops_updatedAt props of Some d \<Rightarrow> d | None \<Rightarrow> now)
            \<rparr>)))"

definition SubTask_create :: "string \<Rightarrow> nat \<Rightarrow> SubTaskProps \<Rightarrow> error + SubTask" where
  "SubTask_create gen now props =
     (if isBlank (sprops_title props) then Inl SubTaskTitleRequired
      else if sprops_taskId props = [] then Inl TaskIdRequired
      else new_SubTask gen now props)"

definition markCompleted :: "nat \<Rightarrow> SubTask \<Rightarrow> SubTask" where
  "markCompleted now st = st\<lparr>SubTask_completed := True, SubTask_updatedAt := now\<rparr>"

definition markIncomplete :: "nat \<Rightarrow> SubTask \<Rightarrow> SubTask" where
  "markIncomplete now st = st\<lparr>SubTask_completed := False, SubTask_updatedAt := now\<rparr>"

section \<open>The relational store\<close>

text \<open>
  The tables that the service and the Knex repositories read and write, each a list of
  rows in insertion order. The columns are those named in the queries of the sources. A
  column that the statement leaves to the store's default is \<open>None\<close>. The planned dates
  of a row have the type of the parameters that the statements bind to them; the store
  takes valid dates only (see \<open>insert_task\<close>).
\<close>

record task_row =
  tk_id :: string
  tk_phase_code :: string
  tk_page_id :: "string option"
  tk_title :: string
  tk_description :: "string option"
  tk_priority :: number
  tk_owner_uuid :: "string option"
  tk_progress :: number
  tk_created_by :: string
  tk_created_at :: nat
  tk_updated_at :: nat
  tk_planned_start :: "Date option"
  tk_planned_end :: "Date option"

record subtask_row =
  st_id :: string
  st_task_id :: string
  st_title :: string
  st_description :: "string option"
  st_completed :: bool
  st_created_by :: string
  st_created_at :: nat
  st_updated_at :: nat

text \<open>A row of \<open>task_raci\<close> or of \<open>subtask_raci\<close>; \<open>rr_entity_id\<close> is the column
  \<open>task_id\<close>, respectively \<open>subtask_id\<close>.\<close>

record 'i raci_row =
  rr_entity_id :: 'i
  rr_user_uuid :: string
  rr_letter :: RaciLetter
  rr_created_at :: "nat option"
  rr_updated_at :: "nat option"

record task_profile_row =
  tp_task_id :: string
  tp_profile_code :: string
  tp_created_at :: nat

record profile_row =
  pf_code :: string
  pf_name :: string

text \<open>\<open>'i\<close> is the type of the key columns of the two RACI tables: the service writes the
  identifiers it read from \<open>task\<close> and \<open>subtask\<close>, which are strings; the RACI
  repository is typed with numbers.\<close>

record 'i store =
  tbl_task :: "task_row list"
  tbl_subtask :: "subtask_row list"
  tbl_task_raci :: "'i raci_row list"
  tbl_subtask_raci :: "'i raci_row list"
  tbl_task_profile :: "task_profile_row list"
  tbl_profile :: "profile_row list"

text \<open>\<open>.first()\<close>: the first row of the result, or \<open>undefined\<close>.\<close>

definition first :: "'a list \<Rightarrow> 'a option" where
  "first rows = (case rows of [] \<Rightarrow> None | r # _ \<Rightarrow> Some r)"

text \<open>\<open>.orderBy(column, 'desc')\<close> on a time column; rows with equal times keep their
  table order.\<close>

definition orderByDesc :: "('a \<Rightarrow> nat) \<Rightarrow> 'a list \<Rightarrow> 'a list" where
  "orderByDesc column rows = sort_key (\<lambda>r. - int (column r)) rows"

text \<open>
  A \<open>Date\<close> bound to a timestamp column is sent as the text of its fields; the text of the
  invalid date is no timestamp, the store rejects the statement and the awaited query
  throws.
\<close>

definition invalidDate :: "Date option \<Rightarrow> bool" where
  "invalidDate d \<longleftrightarrow> d = Some InvalidDate"

text \<open>
  Inserts. The migrations declare the primary keys \<open>task(id)\<close>, \<open>subtask(id)\<close>,
  \<open>task_raci(task_id, user_uuid)\<close>, \<open>subtask_raci(subtask_id, user_uuid)\<close> and
  \<open>task_profile(task_id, profile_code)\<close>, and the foreign key of
  \<open>task_profile(profile_code)\<close> to \<open>profile(code)\<close>; an insert whose key is taken, or
  whose profile code is the code of no profile, is rejected, and the awaited query throws.
  The foreign keys to the tables of users, phases and pages, which are not part of this
  store, and those from a RACI row, a profile association or a subtask to its task or
  subtask are not represented.
\<close>

definition insert_task :: "task_row \<Rightarrow> 'i store \<Rightarrow> error + 'i store" where
  "insert_task r s =
     (if invalidDate (tk_planned_start r) \<or> invalidDate (tk_planned_end r)
      then Inl (InvalidInputSyntax ''timestamp'')
      else if list_ex (\<lambda>x. tk_id x = tk_id r) (tbl_task s) then Inl (DuplicateKey ''task'')
      else Inr (s\<lparr>tbl_task := tbl_task s @ [r]\<rparr>))"

definition insert_subtask :: "subtask_row \<Rightarrow> 'i store \<Rightarrow> error + 'i store" where
  "insert_subtask r s =
     (if list_ex (\<lambda>x. st_id x = st_id r) (tbl_subtask s) then Inl (DuplicateKey ''subtask'')
      else Inr (s\<lparr>tbl_subtask := tbl_subtask s @ [r]\<rparr>))"

definition sameRaciKey :: "'i raci_row \<Rightarrow> 'i raci_row \<Rightarrow> bool" where
  "sameRaciKey r x \<longleftrightarrow> rr_entity_id x = rr_entity_id r \<and> rr_user_uuid x = rr_user_uuid r"

definition insert_task_raci :: "'i raci_row \<Rightarrow> 'i store \<Rightarrow> error + 'i store" where
  "insert_task_raci r s =
     (if list_ex (sameRaciKey r) (tbl_task_raci s) then Inl (DuplicateKey ''task_raci'')
      else Inr (s\<lparr>tbl_task_raci := tbl_task_raci s @ [r]\<rparr>))"

definition insert_subtask_raci :: "'i raci_row \<Rightarrow> 'i store \<Rightarrow> error + 'i store" where
  "insert_subtask_raci r s =
     (if list_ex (sameRaciKey r) (tbl_subtask_raci s) then Inl (DuplicateKey ''subtask_raci'')
      else Inr (s\<lparr>tbl_subtask_raci := tbl_subtask_raci s @ [r]\<rparr>))"

definition insert_task_profile :: "task_profile_row \<Rightarrow> 'i store \<Rightarrow> error + 'i store" where
  "insert_task_profile r s =
     (if list_ex (\<lambda>x. tp_task_id x = tp_task_id r \<and> tp_profile_code x = tp_profile_code r)
           (tbl_task_profile s)
      then Inl (DuplicateKey ''task_profile'')
      else if \<not> list_ex (\<lambda>p. pf_code p = tp_profile_code r) (tbl_profile s)
      then Inl (ForeignKeyViolation ''task_profile'')
      else Inr (s\<lparr>tbl_task_profile := tbl_task_profile s @ [r]\<rparr>))"

text \<open>Rows inserted one after the other (a loop of awaited inserts, or one insert of an
  array of rows): the first rejected row throws.\<close>

fun insertEach ::
  "('r \<Rightarrow> 'i store \<Rightarrow> error + 'i store) \<Rightarrow> 'r list \<Rightarrow> 'i store \<Rightarrow> error + 'i store" where
  "insertEach ins [] s = Inr s"
| "insertEach ins (r # rs) s =
     (case ins r s of Inl e \<Rightarrow> Inl e | Inr s' \<Rightarrow> insertEach ins rs s')"

section \<open>Ports of the service\<close>

text \<open>\<open>RaciEntry\<close> of the port \<open>RaciRepository\<close>; \<open>'n\<close> is the type of its numeric keys.\<close>

record 'n RaciEntry =
  entry_id :: string
  entry_taskId :: "'n option"
  entry_subtaskId :: "'n option"
  entry_userUuid :: string
  entry_letter :: RaciLetter

record Profile =
  Profile_code :: string
  Profile_name :: string

text \<open>
  \<open>TaskService\<close> receives its repositories through its constructor and knows them by their
  interfaces only. The record holds the methods that the embedded use cases call; each
  reads (or, for \<open>save\<close>, rewrites) the store, and an exception of an implementation is
  the failure that the \<open>try/catch\<close> of the caller makes of it. \<open>save\<close> also gets the clock
  that its implementation reads.

  The service passes \<open>Number(taskId)\<close> to the RACI port. The conversion is the field
  \<open>toNumber\<close>, so that the use cases are stated for every type of key; the Knex instance
  below has the conversion of the source, \<open>Number_of\<close>.
\<close>

record 'n ports =
  taskRepository_findById :: "string store \<Rightarrow> string \<Rightarrow> error + Task"
  subtaskRepository_findById :: "string store \<Rightarrow> string \<Rightarrow> error + SubTask"
  subtaskRepository_save ::
    "nat \<Rightarrow> SubTask \<Rightarrow> string store \<Rightarrow> (error + SubTask) \<times> string store"
  raciRepository_findByTaskId :: "string store \<Rightarrow> 'n \<Rightarrow> error + 'n RaciEntry list"
  raciRepository_findBySubTaskId :: "string store \<Rightarrow> 'n \<Rightarrow> error + 'n RaciEntry list"
  profileRepository_findByCode :: "string store \<Rightarrow> string \<Rightarrow> error + Profile"
  toNumber :: "string \<Rightarrow> 'n"

section \<open>Events and transactions\<close>

text \<open>
  The log records, in the order in which they happen, the notifications handed to the
  real-time broker and the boundaries of the database transactions.
\<close>

datatype event =
    TxBegin
  | TxCommit
  | TxRollback
  | TaskCreated TaskDTO
  | TaskUpdated TaskDTO
  | TaskDeleted string
  | SubTaskUpdated SubTaskDTO

text \<open>The promise returned by a transaction callback: resolved with a value, or rejected
  with the exception thrown inside the callback.\<close>

datatype 'a completion = Resolved 'a | Rejected error

text \<open>
  \<open>BaseKnexRepository.transaction\<close> hands the callback to \<open>db.transaction\<close> of Knex, which
  opens a transaction, runs the callback, commits when the callback's promise resolves
  (whatever the value, a \<open>Result.failure\<close> included) and rolls back when it rejects; the
  surrounding \<open>try/catch\<close> turns the rejection into a failure. The commit itself can
  fail: then the transaction is undone, \<open>db.transaction\<close> rejects with the error of the
  commit, and the \<open>try/catch\<close> makes a failure of it. \<open>commit\<close> is what the store answers
  to the commit of this transaction: \<open>None\<close> when it succeeds, the error otherwise. The
  callback yields its completion, the store as its queries leave it, and the events it
  emitted; undoing the transaction restores the store, not the events.
\<close>

definition transaction ::
  "error option \<Rightarrow> ('i store \<Rightarrow> (error + 'a) completion \<times> 'i store \<times> event list) \<Rightarrow> 'i store
     \<Rightarrow> (error + 'a) \<times> 'i store \<times> event list" where
  "transaction commit callback s =
     (case callback s of
        (Resolved result, s', evs) \<Rightarrow>
          (case commit of
             None \<Rightarrow> (result, s', [TxBegin] @ evs @ [TxCommit])
           | Some e \<Rightarrow> (Inl e, s, [TxBegin] @ evs @ [TxRollback]))
      | (Rejected e, s', evs) \<Rightarrow> (Inl e, s, [TxBegin] @ evs @ [TxRollback]))"

section \<open>Authorization (TaskService.ts)\<close>

record LockInfo =
  locked :: bool
  lockedBy :: "string option"

definition isTaskLocked :: "string \<Rightarrow> string \<Rightarrow> error + LockInfo" where
  "isTaskLocked taskId userUuid = Inr \<lparr> locked = False, lockedBy = None \<rparr>"

text \<open>\<open>['CP', 'RF'].includes(userRole)\<close>\<close>

definition isElevated :: "string \<Rightarrow> bool" where
  "isElevated userRole \<longleftrightarrow> userRole \<in> set [''CP'', ''RF'']"

text \<open>The loop over the RACI entries, which stops at the first entry of the user with
  letter R or A.\<close>

fun hasPermission :: "string \<Rightarrow> 'n RaciEntry list \<Rightarrow> bool" where
  "hasPermission userUuid [] = False"
| "hasPermission userUuid (raci # rest) =
     (if entry_userUuid raci = userUuid \<and> entry_letter raci \<in> set [Letter_R, Letter_A]
      then True else hasPermission userUuid rest)"

definition canModifyTask ::
  "'n ports \<Rightarrow> string store \<Rightarrow> string \<Rightarrow> string \<Rightarrow> string \<Rightarrow> error + bool" where
  "canModifyTask P s taskId userUuid userRole =
     (if isElevated userRole then Inr True
      else (case taskRepository_findById P s taskId of
        Inl e \<Rightarrow> Inl e
      | Inr task \<Rightarrow>
         (if Task_ownerUuid task = Some userUuid then Inr True
          else (case raciRepository_findByTaskId P s (toNumber P taskId) of
            Inl e \<Rightarrow> Inl e
          | Inr raciAssignments \<Rightarrow>
             (if \<not> hasPermission userUuid raciAssignments then Inr False
              else (case isTaskLocked taskId userUuid of
                Inl e \<Rightarrow> Inl e
              | Inr lockInfo \<Rightarrow>
                 (if locked lockInfo \<and> lockedBy lockInfo \<noteq> Some userUuid
                  then Inl (TaskBeingEdited taskId)
                  else Inr True)))))))"

definition canChangePhase ::
  "'n ports \<Rightarrow> string store \<Rightarrow> string \<Rightarrow> string \<Rightarrow> string \<Rightarrow> error + bool" where
  "canChangePhase P s taskId userUuid userRole =
     (if isElevated userRole then Inr True
      else (case taskRepository_findById P s taskId of
        Inl e \<Rightarrow> Inl e
      | Inr task \<Rightarrow>
         (if Task_ownerUuid task = Some userUuid then Inr True
          else Inr False)))"

section \<open>Knex repositories\<close>

subsection \<open>TaskKnexRepository\<close>

definition Task_toDomain :: "string \<Rightarrow> nat \<Rightarrow> task_row \<Rightarrow> error + Task" where
  "Task_toDomain gen now record =
     Task_create gen now
       \<lparr> props_id = Some (tk_id record), props_phaseCode = tk_phase_code record,
         props_pageId = tk_page_id record, props_title = tk_title record,
         props_description = tk_description record, props_priority = tk_priority record,
         props_ownerUuid = tk_owner_uuid record, props_progress = tk_progress record,
         props_createdBy = tk_created_by record, props_createdAt = Some (tk_created_at record),
         props_updatedAt = Some (tk_updated_at record),
         props_plannedStart = tk_planned_start record,
         props_plannedEnd = tk_planned_end record \<rparr>"

text \<open>\<open>gen\<close> and \<open>now\<close> are what \<open>Task.create\<close> would draw for a record without
  identifier or dates.\<close>

definition TaskKnexRepository_findById ::
  "string \<Rightarrow> nat \<Rightarrow> 'i store \<Rightarrow> string \<Rightarrow> error + Task" where
  "TaskKnexRepository_findById gen now s ident =
     (case first (filter (\<lambda>r. tk_id r = ident) (tbl_task s)) of
        None \<Rightarrow> Inl (TaskNotFound ident)
      | Some record \<Rightarrow> Task_toDomain gen now record)"

subsection \<open>SubTaskKnexRepository\<close>

definition SubTask_toDomain :: "string \<Rightarrow> nat \<Rightarrow> subtask_row \<Rightarrow> error + SubTask" where
  "SubTask_toDomain gen now record =
     SubTask_create gen now
       \<lparr> sprops_id = Some (st_id record), sprops_taskId = st_task_id record,
         sprops_title = st_title record, sprops_description = st_description record,
         sprops_completed = st_completed record, sprops_createdBy = st_created_by record,
         sprops_createdAt = Some (st_created_at record),
         sprops_updatedAt = Some (st_updated_at record) \<rparr>"

definition SubTaskKnexRepository_findById ::
  "string \<Rightarrow> nat \<Rightarrow> 'i store \<Rightarrow> string \<Rightarrow> error + SubTask" where
  "SubTaskKnexRepository_findById gen now s ident =
     (case first (filter (\<lambda>r. st_id r = ident) (tbl_subtask s)) of
        None \<Rightarrow> Inl (SubTaskNotFound ident)
      | Some record \<Rightarrow> SubTask_toDomain gen now record)"

text \<open>\<open>save\<close>: update the row of the identifier when there is one, insert otherwise, and
  read the row back. \<open>now\<close> is the clock that \<open>save\<close> reads.\<close>

definition SubTaskKnexRepository_save ::
  "string \<Rightarrow> nat \<Rightarrow> SubTask \<Rightarrow> 'i store \<Rightarrow> (error + SubTask) \<times> 'i store" where
  "SubTaskKnexRepository_save gen now subtask s =
     (let dto = SubTask_toObject subtask in
      case first (filter (\<lambda>r. st_id r = SubTask_id dto) (tbl_subtask s)) of
        Some exists \<Rightarrow>
          (let s' = s\<lparr>tbl_subtask :=
                        map (\<lambda>r. if st_id r = SubTask_id dto
                                  then r\<lparr>st_title := SubTask_title dto,
                                         st_description := SubTask_description dto,
                                         st_completed := SubTask_completed dto,
                                         st_updated_at := now\<rparr>
                                  else r) (tbl_subtask s)\<rparr>
           in (SubTaskKnexRepository_findById gen now s' (SubTask_id dto), s'))
      | None \<Rightarrow>
          (case insert_subtask
                  \<lparr> st_id = SubTask_id dto, st_task_id = SubTask_taskId dto,
                    st_title = SubTask_title dto, st_description = SubTask_description dto,
                    st_completed = SubTask_completed dto, st_created_by = SubTask_createdBy dto,
                    st_created_at = now, st_updated_at = now \<rparr> s of
             Inl e \<Rightarrow> (Inl e, s)
           | Inr s' \<Rightarrow> (SubTaskKnexRepository_findById gen now s' (SubTask_id dto), s')))"

subsection \<open>RaciKnexRepository\<close>

text \<open>
  The methods of the repository called as they are typed, with a key of the type \<open>'i\<close> of
  the key column. \<open>render\<close> is the conversion of a key to text inside the template literal
  that builds the identifier of an entry. (\<open>TaskService\<close> calls \<open>findByTaskId\<close> and
  \<open>findBySubTaskId\<close> otherwise: see \<open>RaciKnexRepository_findByNumber\<close>.)
\<close>

definition RaciKnexRepository_findByTaskId ::
  "('i \<Rightarrow> string) \<Rightarrow> 'i store \<Rightarrow> 'i \<Rightarrow> error + 'i RaciEntry list" where
  "RaciKnexRepository_findByTaskId render s taskId =
     Inr (map (\<lambda>record.
                 \<lparr> entry_id = ''task-'' @ render (rr_entity_id record) @ ''-'' @ rr_user_uuid record,
                   entry_taskId = Some (rr_entity_id record), entry_subtaskId = None,
                   entry_userUuid = rr_user_uuid record, entry_letter = rr_letter record \<rparr>)
              (filter (\<lambda>r. rr_entity_id r = taskId) (tbl_task_raci s)))"

definition RaciKnexRepository_findBySubTaskId ::
  "('i \<Rightarrow> string) \<Rightarrow> 'i store \<Rightarrow> 'i \<Rightarrow> error + 'i RaciEntry list" where
  "RaciKnexRepository_findBySubTaskId render s subtaskId =
     Inr (map (\<lambda>record.
                 \<lparr> entry_id = ''subtask-'' @ render (rr_entity_id record) @ ''-''
                              @ rr_user_uuid record,
                   entry_taskId = None, entry_subtaskId = Some (rr_entity_id record),
                   entry_userUuid = rr_user_uuid record, entry_letter = rr_letter record \<rparr>)
              (filter (\<lambda>r. rr_entity_id r = subtaskId) (tbl_subtask_raci s)))"

text \<open>The rows of a RACI table selected by \<open>.where(key, id).where('user_uuid', userUuid)\<close>.\<close>

definition raciOf :: "'i \<Rightarrow> string \<Rightarrow> 'i raci_row \<Rightarrow> bool" where
  "raciOf ident userUuid r \<longleftrightarrow> rr_entity_id r = ident \<and> rr_user_uuid r = userUuid"

definition updateLetter :: "nat \<Rightarrow> 'i \<Rightarrow> string \<Rightarrow> RaciLetter \<Rightarrow> 'i raci_row list \<Rightarrow> 'i raci_row list" where
  "updateLetter now ident userUuid letter rows =
     map (\<lambda>r. if raciOf ident userUuid r
               then r\<lparr>rr_letter := letter, rr_updated_at := Some now\<rparr> else r) rows"

definition saveTaskRaci ::
  "nat \<Rightarrow> 'i \<Rightarrow> string \<Rightarrow> RaciLetter \<Rightarrow> 'i store \<Rightarrow> (error + unit) \<times> 'i store" where
  "saveTaskRaci now taskId userUuid letter s =
     (case first (filter (raciOf taskId userUuid) (tbl_task_raci s)) of
        Some existing \<Rightarrow>
          (Inr (), s\<lparr>tbl_task_raci := updateLetter now taskId userUuid letter (tbl_task_raci s)\<rparr>)
      | None \<Rightarrow>
          (case insert_task_raci
                  \<lparr> rr_entity_id = taskId, rr_user_uuid = userUuid, rr_letter = letter,
                    rr_created_at = None, rr_updated_at = None \<rparr> s of
             Inl e \<Rightarrow> (Inl e, s)
           | Inr s' \<Rightarrow> (Inr (), s')))"

definition saveSubTaskRaci ::
  "nat \<Rightarrow> 'i \<Rightarrow> string \<Rightarrow> RaciLetter \<Rightarrow> 'i store \<Rightarrow> (error + unit) \<times> 'i store" where
  "saveSubTaskRaci now subtaskId userUuid letter s =
     (case first (filter (raciOf subtaskId userUuid) (tbl_subtask_raci s)) of
        Some existing \<Rightarrow>
          (Inr (), s\<lparr>tbl_subtask_raci :=
                        updateLetter now subtaskId userUuid letter (tbl_subtask_raci s)\<rparr>)
      | None \<Rightarrow>
          (case insert_subtask_raci
                  \<lparr> rr_entity_id = subtaskId, rr_user_uuid = userUuid, rr_letter = letter,
                    rr_created_at = None, rr_updated_at = None \<rparr> s of
             Inl e \<Rightarrow> (Inl e, s)
           | Inr s' \<Rightarrow> (Inr (), s')))"

definition deleteAllForTask :: "'i \<Rightarrow> 'i store \<Rightarrow> (error + unit) \<times> 'i store" where
  "deleteAllForTask taskId s =
     (Inr (), s\<lparr>tbl_task_raci := filter (\<lambda>r. rr_entity_id r \<noteq> taskId) (tbl_task_raci s)\<rparr>)"

definition deleteAllForSubTask :: "'i \<Rightarrow> 'i store \<Rightarrow> (error + unit) \<times> 'i store" where
  "deleteAllForSubTask subtaskId s =
     (Inr (), s\<lparr>tbl_subtask_raci :=
                   filter (\<lambda>r. rr_entity_id r \<noteq> subtaskId) (tbl_subtask_raci s)\<rparr>)"

text \<open>
  \<open>copyFromTaskToSubTask\<close> called without a transaction: it opens its own, in which
  \<open>performCopyFromTaskToSubTask\<close> runs; \<open>commit\<close> is the answer of the store to its commit.
\<close>

definition performCopyFromTaskToSubTask ::
  "'i \<Rightarrow> 'i \<Rightarrow> 'i store \<Rightarrow> (error + unit) completion \<times> 'i store \<times> event list" where
  "performCopyFromTaskToSubTask taskId subtaskId s =
     (let taskRacis = filter (\<lambda>r. rr_entity_id r = taskId) (tbl_task_raci s) in
      if length taskRacis = 0 then (Resolved (Inr ()), s, [])
      else
        (let s1 = s\<lparr>tbl_subtask_raci :=
                      filter (\<lambda>r. rr_entity_id r \<noteq> subtaskId) (tbl_subtask_raci s)\<rparr>;
             subtaskRacis =
               map (\<lambda>raci. \<lparr> rr_entity_id = subtaskId, rr_user_uuid = rr_user_uuid raci,
                              rr_letter = rr_letter raci, rr_created_at = None,
                              rr_updated_at = None \<rparr>) taskRacis
         in if length subtaskRacis > 0
            then (case insertEach insert_subtask_raci subtaskRacis s1 of
                    Inl e \<Rightarrow> (Rejected e, s1, [])
                  | Inr s2 \<Rightarrow> (Resolved (Inr ()), s2, []))
            else (Resolved (Inr ()), s1, [])))"

definition copyFromTaskToSubTask ::
  "error option \<Rightarrow> 'i \<Rightarrow> 'i \<Rightarrow> 'i store \<Rightarrow> (error + unit) \<times> 'i store \<times> event list" where
  "copyFromTaskToSubTask commit taskId subtaskId s =
     transaction commit (performCopyFromTaskToSubTask taskId subtaskId) s"

section \<open>Use cases (TaskService.ts)\<close>

record RaciInput =
  raci_R :: "string list option"
  raci_A :: "string list option"
  raci_C :: "string list option"
  raci_I :: "string list option"

record CreateTaskInput =
  in_phaseCode :: string
  in_pageId :: "string option"
  in_title :: string
  in_description :: "string option"
  in_priority :: number
  in_ownerUuid :: "string option"
  in_profilesImpacted :: "string list option"
  in_raci :: "RaciInput option"

record UpdateTaskInput =
  up_phaseCode :: "string option"
  up_pageId :: "string option"
  up_title :: "string option"
  up_description :: "string option"
  up_priority :: "number option"
  up_ownerUuid :: "string option"
  up_plannedStart :: "Date option"
  up_plannedEnd :: "Date option"
  up_profilesImpacted :: "string list option"
  up_raci :: "RaciInput option"

record RaciMap =
  map_R :: "string list"
  map_A :: "string list"
  map_C :: "string list"
  map_I :: "string list"

record TaskWithRaciDTO =
  twr_task :: TaskDTO
  twr_raci :: RaciMap
  twr_subtasks :: "SubTaskDTO list"
  twr_profilesImpacted :: "string list"

record SubTaskWithRaciDTO =
  swr_subtask :: SubTaskDTO
  swr_raci :: RaciMap

text \<open>The constant texts of the responses.\<close>

datatype message =
    TaskCreatedMessage      \<comment> \<open>the text announcing that the task was created\<close>
  | TaskUpdatedMessage      \<comment> \<open>the text announcing that the task was updated\<close>
  | SubTaskCreatedMessage   \<comment> \<open>the text announcing that the subtask was created\<close>

record TaskResponse =
  response_task :: TaskWithRaciDTO
  response_message :: message

record CreateSubTaskResponse =
  response_subtask :: SubTaskWithRaciDTO
  response_submessage :: message

text \<open>
  What a call draws from its environment: the string of \<open>UUID.create()\<close>, the clock read
  while the entity is built or changed (consecutive readings are one instant), the clock
  read inside the transaction callback, the clock read by \<open>save\<close>, the answer of the
  store to the commit of the transaction that the call opens, and the value that
  \<open>Number\<close> gives to the strings that may be numeric literals (see \<open>Number_of\<close>).
\<close>

record env =
  env_uuid :: string
  env_entityNow :: nat
  env_trxNow :: nat
  env_saveNow :: nat
  env_commit :: "error option"
  env_literalValue :: "string \<Rightarrow> number"

text \<open>\<open>input.raci[letter]\<close>, where an absent list and an empty one both insert nothing.\<close>

definition usersOf :: "RaciInput \<Rightarrow> RaciLetter \<Rightarrow> string list" where
  "usersOf raci letter =
     (case (case letter of Letter_R \<Rightarrow> raci_R raci | Letter_A \<Rightarrow> raci_A raci
                         | Letter_C \<Rightarrow> raci_C raci | Letter_I \<Rightarrow> raci_I raci) of
        None \<Rightarrow> [] | Some users \<Rightarrow> users)"

text \<open>The rows that the two nested iterations over the letters R, A, C, I and over the users
  of each letter insert, in the order of the iterations.\<close>

definition raciRows :: "string \<Rightarrow> nat \<Rightarrow> RaciInput option \<Rightarrow> string raci_row list" where
  "raciRows taskId now raci =
     (case raci of
        None \<Rightarrow> []
      | Some input \<Rightarrow>
          concat (map (\<lambda>letter.
                    map (\<lambda>userUuid. \<lparr> rr_entity_id = taskId, rr_user_uuid = userUuid,
                                       rr_letter = letter, rr_created_at = Some now,
                                       rr_updated_at = Some now \<rparr>)
                        (usersOf input letter))
                  [Letter_R, Letter_A, Letter_C, Letter_I]))"

definition profileRows :: "string \<Rightarrow> nat \<Rightarrow> string list \<Rightarrow> task_profile_row list" where
  "profileRows taskId now codes =
     map (\<lambda>code. \<lparr> tp_task_id = taskId, tp_profile_code = code, tp_created_at = now \<rparr>) codes"

text \<open>The four \<open>filter(...).map(...)\<close> that group the users by letter.\<close>

definition raciMapOf :: "('r \<Rightarrow> RaciLetter) \<Rightarrow> ('r \<Rightarrow> string) \<Rightarrow> 'r list \<Rightarrow> RaciMap" where
  "raciMapOf letter user rows =
     \<lparr> map_R = map user (filter (\<lambda>r. letter r = Letter_R) rows),
       map_A = map user (filter (\<lambda>r. letter r = Letter_A) rows),
       map_C = map user (filter (\<lambda>r. letter r = Letter_C) rows),
       map_I = map user (filter (\<lambda>r. letter r = Letter_I) rows) \<rparr>"

subsection \<open>createTask\<close>

definition firstMissingProfile :: "'n ports \<Rightarrow> string store \<Rightarrow> string list \<Rightarrow> string option" where
  "firstMissingProfile P s codes = find (\<lambda>code. isl (profileRepository_findByCode P s code)) codes"

definition taskRowOf :: "Task \<Rightarrow> task_row" where
  "taskRowOf task =
     \<lparr> tk_id = Task_id task, tk_phase_code = Task_phaseCode task, tk_page_id = Task_pageId task,
       tk_title = Task_title task, tk_description = Task_description task,
       tk_priority = Task_priority task, tk_owner_uuid = Task_ownerUuid task,
       tk_progress = Task_progress task, tk_created_by = Task_createdBy task,
       tk_created_at = Task_createdAt task, tk_updated_at = Task_updatedAt task,
       tk_planned_start = Task_plannedStart task, tk_planned_end = Task_plannedEnd task \<rparr>"

definition createTask_props :: "env \<Rightarrow> CreateTaskInput \<Rightarrow> string \<Rightarrow> TaskProps" where
  "createTask_props E input creatorUuid =
     \<lparr> props_id = None, props_phaseCode = in_phaseCode input, props_pageId = in_pageId input,
       props_title = in_title input, props_description = in_description input,
       props_priority = in_priority input, props_ownerUuid = in_ownerUuid input,
       props_progress = Num 0, props_createdBy = creatorUuid,
       props_createdAt = Some (env_entityNow E), props_updatedAt = Some (env_entityNow E),
       props_plannedStart = None, props_plannedEnd = None \<rparr>"

text \<open>The row read back after the insert: same title, creator and creation date, latest
  first.\<close>

definition savedTaskRecord :: "Task \<Rightarrow> string store \<Rightarrow> task_row option" where
  "savedTaskRecord task s =
     first (orderByDesc tk_created_at
              (filter (\<lambda>r. tk_title r = Task_title task \<and> tk_created_by r = Task_createdBy task
                           \<and> tk_created_at r = Task_createdAt task) (tbl_task s)))"

definition createTask_callback ::
  "env \<Rightarrow> CreateTaskInput \<Rightarrow> string \<Rightarrow> string store
     \<Rightarrow> (error + TaskResponse) completion \<times> string store \<times> event list" where
  "createTask_callback E input creatorUuid s =
     (case Task_create (env_uuid E) (env_entityNow E) (createTask_props E input creatorUuid) of
        Inl e \<Rightarrow> (Resolved (Inl e), s, [])
      | Inr task \<Rightarrow>
     (case insert_task (taskRowOf task) s of
        Inl e \<Rightarrow> (Rejected e, s, [])
      | Inr s1 \<Rightarrow>
     (case savedTaskRecord task s1 of
        None \<Rightarrow> (Rejected (TypeError ''id''), s1, [])
      | Some saved \<Rightarrow>
     (let taskId = tk_id saved; now = env_trxNow E in
      case insertEach insert_task_raci (raciRows taskId now (in_raci input)) s1 of
        Inl e \<Rightarrow> (Rejected e, s1, [])
      | Inr s2 \<Rightarrow>
     (case insertEach insert_task_profile
             (profileRows taskId now (case in_profilesImpacted input of None \<Rightarrow> [] | Some cs \<Rightarrow> cs))
             s2 of
        Inl e \<Rightarrow> (Rejected e, s2, [])
      | Inr s3 \<Rightarrow>
     (let raciAssignments = filter (\<lambda>r. rr_entity_id r = taskId) (tbl_task_raci s3);
          raci = raciMapOf rr_letter rr_user_uuid raciAssignments;
          taskWithRaci =
            \<lparr> twr_task = Task_toObject task, twr_raci = raci, twr_subtasks = [],
              twr_profilesImpacted =
                (case in_profilesImpacted input of None \<Rightarrow> [] | Some cs \<Rightarrow> cs) \<rparr>;
          response = \<lparr> response_task = taskWithRaci, response_message = TaskCreatedMessage \<rparr>
      in (Resolved (Inr response), s3,
          [TaskCreated ((Task_toObject task)\<lparr>Task_id := taskId\<rparr>)])))))))"

definition createTask ::
  "'n ports \<Rightarrow> env \<Rightarrow> CreateTaskInput \<Rightarrow> string \<Rightarrow> string store
     \<Rightarrow> (error + TaskResponse) \<times> string store \<times> event list" where
  "createTask P E input creatorUuid s =
     (case firstMissingProfile P s
             (case in_profilesImpacted input of None \<Rightarrow> [] | Some cs \<Rightarrow> cs) of
        Some profileCode \<Rightarrow> (Inl (ProfileDoesNotExist profileCode), s, [])
      | None \<Rightarrow> transaction (env_commit E) (createTask_callback E input creatorUuid) s)"

subsection \<open>updateTask\<close>

text \<open>A setter applied to the loaded task: its failure ends the use case, otherwise the
  changed task goes on.\<close>

definition applySetter :: "(error + unit) \<times> Task \<Rightarrow> error + Task" where
  "applySetter res = (case fst res of Inl e \<Rightarrow> Inl e | Inr u \<Rightarrow> Inr (snd res))"

definition applyTitle :: "nat \<Rightarrow> UpdateTaskInput \<Rightarrow> Task \<Rightarrow> error + Task" where
  "applyTitle now input task =
     (case up_title input of None \<Rightarrow> Inr task
      | Some title \<Rightarrow> applySetter (updateTitle now title task))"

definition applyDescription :: "nat \<Rightarrow> UpdateTaskInput \<Rightarrow> Task \<Rightarrow> error + Task" where
  "applyDescription now input task =
     (case up_description input of None \<Rightarrow> Inr task
      | Some d \<Rightarrow> applySetter (updateDescription now (Some d) task))"

definition applyPriority :: "nat \<Rightarrow> UpdateTaskInput \<Rightarrow> Task \<Rightarrow> error + Task" where
  "applyPriority now input task =
     (case up_priority input of None \<Rightarrow> Inr task
      | Some p \<Rightarrow> applySetter (updatePriority now p task))"

definition applyPhase ::
  "'n ports \<Rightarrow> string store \<Rightarrow> nat \<Rightarrow> string \<Rightarrow> string \<Rightarrow> string \<Rightarrow> UpdateTaskInput \<Rightarrow> Task
     \<Rightarrow> error + Task" where
  "applyPhase P s now taskId userUuid userRole input task =
     (case up_phaseCode input of None \<Rightarrow> Inr task
      | Some phaseCode \<Rightarrow>
          if phaseCode = Task_phaseCode task then Inr task
          else (case canChangePhase P s taskId userUuid userRole of
                  Inl e \<Rightarrow> Inl e
                | Inr allowed \<Rightarrow>
                    if \<not> allowed then Inl (ForbiddenChangePhase userRole taskId)
                    else applySetter (updatePhase now phaseCode task)))"

definition applyOwner :: "nat \<Rightarrow> UpdateTaskInput \<Rightarrow> Task \<Rightarrow> error + Task" where
  "applyOwner now input task =
     (case up_ownerUuid input of None \<Rightarrow> Inr task
      | Some ownerUuid \<Rightarrow> applySetter (updateOwner now (Some ownerUuid) task))"

definition applyPlannedDates :: "nat \<Rightarrow> UpdateTaskInput \<Rightarrow> Task \<Rightarrow> error + Task" where
  "applyPlannedDates now input task =
     (if up_plannedStart input \<noteq> None \<or> up_plannedEnd input \<noteq> None
      then applySetter (updatePlannedDates now (up_plannedStart input) (up_plannedEnd input) task)
      else Inr task)"

text \<open>The setters in the order of the source: title, description, priority, phase, owner,
  planned dates.\<close>

definition applyUpdates ::
  "'n ports \<Rightarrow> string store \<Rightarrow> nat \<Rightarrow> string \<Rightarrow> string \<Rightarrow> string \<Rightarrow> UpdateTaskInput \<Rightarrow> Task
     \<Rightarrow> error + Task" where
  "applyUpdates P s now taskId userUuid userRole input task =
     (case applyTitle now input task of Inl e \<Rightarrow> Inl e | Inr t1 \<Rightarrow>
     (case applyDescription now input t1 of Inl e \<Rightarrow> Inl e | Inr t2 \<Rightarrow>
     (case applyPriority now input t2 of Inl e \<Rightarrow> Inl e | Inr t3 \<Rightarrow>
     (case applyPhase P s now taskId userUuid userRole input t3 of Inl e \<Rightarrow> Inl e | Inr t4 \<Rightarrow>
     (case applyOwner now input t4 of Inl e \<Rightarrow> Inl e | Inr t5 \<Rightarrow>
      applyPlannedDates now input t5)))))"

text \<open>
  \<open>trx('task').where('id', taskId).update({...})\<close>. Knex leaves out of the statement the
  columns whose value is \<open>undefined\<close>: such a column keeps what the row holds. (Where the
  entity holds the \<open>null\<close> that the repository read from the row, the statement writes
  NULL over NULL.)
\<close>

definition written :: "'a option \<Rightarrow> 'a option \<Rightarrow> 'a option" where
  "written v stored = (case v of None \<Rightarrow> stored | Some x \<Rightarrow> Some x)"

definition updateTaskRow :: "string \<Rightarrow> Task \<Rightarrow> nat \<Rightarrow> task_row list \<Rightarrow> task_row list" where
  "updateTaskRow taskId task now rows =
     map (\<lambda>r. if tk_id r = taskId
               then r\<lparr> tk_phase_code := Task_phaseCode task,
                       tk_page_id := written (Task_pageId task) (tk_page_id r),
                       tk_title := Task_title task,
                       tk_description := written (Task_description task) (tk_description r),
                       tk_priority := Task_priority task,
                       tk_owner_uuid := written (Task_ownerUuid task) (tk_owner_uuid r),
                       tk_progress := Task_progress task, tk_updated_at := now,
                       tk_planned_start := written (Task_plannedStart task) (tk_planned_start r),
                       tk_planned_end := written (Task_plannedEnd task) (tk_planned_end r) \<rparr>
               else r) rows"

text \<open>The statement is rejected when a planned date that it binds is the invalid date.\<close>

definition updateTaskStatement ::
  "string \<Rightarrow> Task \<Rightarrow> nat \<Rightarrow> 'i store \<Rightarrow> error + 'i store" where
  "updateTaskStatement taskId task now s =
     (if invalidDate (Task_plannedStart task) \<or> invalidDate (Task_plannedEnd task)
      then Inl (InvalidInputSyntax ''timestamp'')
      else Inr (s\<lparr>tbl_task := updateTaskRow taskId task now (tbl_task s)\<rparr>))"

text \<open>The subtasks of the response, built column by column from the rows; the description
  is not copied.\<close>

definition subtaskDtoOfRow :: "subtask_row \<Rightarrow> SubTaskDTO" where
  "subtaskDtoOfRow st =
     \<lparr> SubTask_id = st_id st, SubTask_taskId = st_task_id st, SubTask_title = st_title st,
       SubTask_description = None, SubTask_completed = st_completed st,
       SubTask_createdBy = st_created_by st, SubTask_createdAt = st_created_at st,
       SubTask_updatedAt = st_updated_at st \<rparr>"

text \<open>\<open>task_profile\<close> joined with \<open>profile\<close> on the code, for one task.\<close>

definition joinedProfileCodes :: "string \<Rightarrow> 'i store \<Rightarrow> string list" where
  "joinedProfileCodes taskId s =
     concat (map (\<lambda>tp. map pf_code
                          (filter (\<lambda>p. pf_code p = tp_profile_code tp) (tbl_profile s)))
                 (filter (\<lambda>tp. tp_task_id tp = taskId) (tbl_task_profile s)))"

definition updateTask_callback ::
  "env \<Rightarrow> string \<Rightarrow> UpdateTaskInput \<Rightarrow> Task \<Rightarrow> string store
     \<Rightarrow> (error + TaskResponse) completion \<times> string store \<times> event list" where
  "updateTask_callback E taskId input task s =
     (let now = env_trxNow E in
      case updateTaskStatement taskId task now s of
        Inl e \<Rightarrow> (Rejected e, s, [])
      | Inr s1 \<Rightarrow>
     (case (case up_raci input of
              None \<Rightarrow> Inr s1
            | Some raci \<Rightarrow>
                insertEach insert_task_raci (raciRows taskId now (Some raci))
                  (s1\<lparr>tbl_task_raci :=
                        filter (\<lambda>r. rr_entity_id r \<noteq> taskId) (tbl_task_raci s1)\<rparr>)) of
        Inl e \<Rightarrow> (Rejected e, s1, [])
      | Inr s2 \<Rightarrow>
     (case (case up_profilesImpacted input of
              None \<Rightarrow> Inr s2
            | Some codes \<Rightarrow>
                insertEach insert_task_profile (profileRows taskId now codes)
                  (s2\<lparr>tbl_task_profile :=
                        filter (\<lambda>tp. tp_task_id tp \<noteq> taskId) (tbl_task_profile s2)\<rparr>)) of
        Inl e \<Rightarrow> (Rejected e, s2, [])
      | Inr s3 \<Rightarrow>
     (let raciAssignments = filter (\<lambda>r. rr_entity_id r = taskId) (tbl_task_raci s3);
          subtasks = filter (\<lambda>st. st_task_id st = taskId) (tbl_subtask s3);
          taskWithDetails =
            \<lparr> twr_task = Task_toObject task,
              twr_raci = raciMapOf rr_letter rr_user_uuid raciAssignments,
              twr_subtasks = map subtaskDtoOfRow subtasks,
              twr_profilesImpacted = joinedProfileCodes taskId s3 \<rparr>;
          response = \<lparr> response_task = taskWithDetails, response_message = TaskUpdatedMessage \<rparr>
      in (Resolved (Inr response), s3, [TaskUpdated (Task_toObject task)])))))"

definition updateTask ::
  "'n ports \<Rightarrow> env \<Rightarrow> string \<Rightarrow> UpdateTaskInput \<Rightarrow> string \<Rightarrow> string \<Rightarrow> string store
     \<Rightarrow> (error + TaskResponse) \<times> string store \<times> event list" where
  "updateTask P E taskId input userUuid userRole s =
     (case taskRepository_findById P s taskId of
        Inl e \<Rightarrow> (Inl e, s, [])
      | Inr task \<Rightarrow>
     (case canModifyTask P s taskId userUuid userRole of
        Inl e \<Rightarrow> (Inl e, s, [])
      | Inr allowed \<Rightarrow>
          if \<not> allowed then (Inl (ForbiddenModify userRole taskId), s, [])
          else (case applyUpdates P s (env_entityNow E) taskId userUuid userRole input task of
                  Inl e \<Rightarrow> (Inl e, s, [])
                | Inr task' \<Rightarrow>
                    transaction (env_commit E) (updateTask_callback E taskId input task') s)))"

subsection \<open>createSubTask\<close>

record SubTaskData =
  sd_title :: string
  sd_done :: "bool option"

definition createSubTask_props :: "string \<Rightarrow> SubTaskData \<Rightarrow> string \<Rightarrow> SubTaskProps" where
  "createSubTask_props taskId subtaskData userUuid =
     \<lparr> sprops_id = None, sprops_taskId = taskId, sprops_title = sd_title subtaskData,
       sprops_description = None,
       sprops_completed = (case sd_done subtaskData of None \<Rightarrow> False | Some d \<Rightarrow> d),
       sprops_createdBy = userUuid, sprops_createdAt = None, sprops_updatedAt = None \<rparr>"

text \<open>The row read back after the insert: same title, task and creator, latest first.\<close>

definition savedSubtaskRecord :: "SubTask \<Rightarrow> string store \<Rightarrow> subtask_row option" where
  "savedSubtaskRecord subtask s =
     first (orderByDesc st_created_at
              (filter (\<lambda>r. st_title r = SubTask_title subtask
                           \<and> st_task_id r = SubTask_taskId subtask
                           \<and> st_created_by r = SubTask_createdBy subtask) (tbl_subtask s)))"

text \<open>The copies of the task's RACI rows made for the subtask.\<close>

definition subtaskRacisOf :: "string \<Rightarrow> nat \<Rightarrow> string raci_row list \<Rightarrow> string raci_row list" where
  "subtaskRacisOf subtaskId now taskRacis =
     map (\<lambda>raci. \<lparr> rr_entity_id = subtaskId, rr_user_uuid = rr_user_uuid raci,
                    rr_letter = rr_letter raci, rr_created_at = Some now,
                    rr_updated_at = Some now \<rparr>) taskRacis"

definition createSubTask_callback ::
  "env \<Rightarrow> string \<Rightarrow> SubTask \<Rightarrow> string store
     \<Rightarrow> (error + CreateSubTaskResponse) completion \<times> string store \<times> event list" where
  "createSubTask_callback E taskId subtask s =
     (let now = env_trxNow E in
      case insert_subtask
             \<lparr> st_id = SubTask_id subtask, st_task_id = SubTask_taskId subtask,
               st_title = SubTask_title subtask, st_description = None,
               st_completed = SubTask_completed subtask,
               st_created_by = SubTask_createdBy subtask,
               st_created_at = now, st_updated_at = now \<rparr> s of
        Inl e \<Rightarrow> (Rejected e, s, [])
      | Inr s1 \<Rightarrow>
     (case savedSubtaskRecord subtask s1 of
        None \<Rightarrow> (Rejected (TypeError ''id''), s1, [])
      | Some saved \<Rightarrow>
     (let subtaskId = st_id saved;
          taskRacis = filter (\<lambda>r. rr_entity_id r = taskId) (tbl_task_raci s1) in
      case (if length taskRacis > 0
            then insertEach insert_subtask_raci (subtaskRacisOf subtaskId now taskRacis) s1
            else Inr s1) of
        Inl e \<Rightarrow> (Rejected e, s1, [])
      | Inr s2 \<Rightarrow>
     (let subtaskRacis = filter (\<lambda>r. rr_entity_id r = subtaskId) (tbl_subtask_raci s2);
          raci = raciMapOf rr_letter rr_user_uuid subtaskRacis;
          subtaskDTO =
            \<lparr> SubTask_id = subtaskId, SubTask_taskId = SubTask_taskId subtask,
              SubTask_title = SubTask_title subtask, SubTask_description = None,
              SubTask_completed = SubTask_completed subtask,
              SubTask_createdBy = SubTask_createdBy subtask,
              SubTask_createdAt = now, SubTask_updatedAt = now \<rparr>;
          response = \<lparr> response_subtask = \<lparr> swr_subtask = subtaskDTO, swr_raci = raci \<rparr>,
                       response_submessage = SubTaskCreatedMessage \<rparr>
      in (Resolved (Inr response), s2, [SubTaskUpdated subtaskDTO])))))"

definition createSubTask ::
  "'n ports \<Rightarrow> env \<Rightarrow> string \<Rightarrow> SubTaskData \<Rightarrow> string \<Rightarrow> string \<Rightarrow> string store
     \<Rightarrow> (error + CreateSubTaskResponse) \<times> string store \<times> event list" where
  "createSubTask P E taskId subtaskData userUuid userRole s =
     (case taskRepository_findById P s taskId of
        Inl e \<Rightarrow> (Inl (TaskNotFound taskId), s, [])
      | Inr task \<Rightarrow>
     (case canModifyTask P s taskId userUuid userRole of
        Inl e \<Rightarrow> (Inl e, s, [])
      | Inr allowed \<Rightarrow>
          if \<not> allowed then (Inl (ForbiddenAddSubTask userRole taskId), s, [])
          else (case SubTask_create (env_uuid E) (env_entityNow E)
                       (createSubTask_props taskId subtaskData userUuid) of
                  Inl e \<Rightarrow> (Inl e, s, [])
                | Inr subtask \<Rightarrow>
                    transaction (env_commit E) (createSubTask_callback E taskId subtask) s)))"

subsection \<open>updateSubTaskStatus\<close>

definition updateSubTaskStatus ::
  "'n ports \<Rightarrow> env \<Rightarrow> string \<Rightarrow> bool \<Rightarrow> string \<Rightarrow> string \<Rightarrow> string store
     \<Rightarrow> (error + SubTaskWithRaciDTO) \<times> string store \<times> event list" where
  "updateSubTaskStatus P E subtaskId done userUuid userRole s =
     (case subtaskRepository_findById P s subtaskId of
        Inl e \<Rightarrow> (Inl e, s, [])
      | Inr subtask \<Rightarrow>
     (let taskId = SubTask_taskId subtask in
      case canModifyTask P s taskId userUuid userRole of
        Inl e \<Rightarrow> (Inl e, s, [])
      | Inr allowed \<Rightarrow>
          if \<not> allowed then (Inl (ForbiddenUpdateSubTask userRole subtaskId), s, [])
          else
            (let subtask' = (if done then markCompleted (env_entityNow E) subtask
                             else markIncomplete (env_entityNow E) subtask) in
             case subtaskRepository_save P (env_saveNow E) subtask' s of
               (Inl e, s') \<Rightarrow> (Inl e, s', [])
             | (Inr updatedSubtask, s') \<Rightarrow>
                 (let raciResult =
                        raciRepository_findBySubTaskId P s' (toNumber P (SubTask_id updatedSubtask));
                      raciAssignments = (case raciResult of Inl e \<Rightarrow> [] | Inr entries \<Rightarrow> entries);
                      raci = raciMapOf entry_letter entry_userUuid raciAssignments;
                      subtaskWithRaci =
                        \<lparr> swr_subtask = SubTask_toObject updatedSubtask, swr_raci = raci \<rparr>;
                      updatedTask = taskRepository_findById P s' taskId
                  in (Inr subtaskWithRaci, s',
                      [SubTaskUpdated (SubTask_toObject updatedSubtask)]
                        @ (case updatedTask of
                             Inl e \<Rightarrow> []
                           | Inr task \<Rightarrow> [TaskUpdated (Task_toObject task)]))))))"

section \<open>ProfileKnexRepository and the Knex instance of the ports\<close>

definition Profile_create :: "string \<Rightarrow> string \<Rightarrow> error + Profile" where
  "Profile_create code name =
     (if isBlank code then Inl ProfileCodeRequired
      else if isBlank name then Inl ProfileNameRequired
      else if length code > 8 then Inl ProfileCodeTooLong
      else if \<not> list_all (\<lambda>c. c \<in> set ''ABCDEFGHIJKLMNOPQRSTUVWXYZ0123456789_'') code
        then Inl ProfileCodeFormat
      else if length name > 64 then Inl ProfileNameTooLong
      else Inr \<lparr> Profile_code = code, Profile_name = name \<rparr>)"

definition ProfileKnexRepository_findByCode :: "'i store \<Rightarrow> string \<Rightarrow> error + Profile" where
  "ProfileKnexRepository_findByCode s code =
     (case first (filter (\<lambda>r. pf_code r = code) (tbl_profile s)) of
        None \<Rightarrow> Inl (ProfileNotFound code)
      | Some record \<Rightarrow> Profile_create (pf_code record) (pf_name record))"

text \<open>
  \<open>findByTaskId\<close> and \<open>findBySubTaskId\<close> of \<open>RaciKnexRepository\<close> as \<open>TaskService\<close> calls
  them: with a number, which Knex binds to the parameter compared with the column
  \<open>task_id\<close> (\<open>subtask_id\<close>) of a store whose identifiers are UUIDs, the only identifiers
  that the entities accept. The driver sends a number as its text: a decimal numeral,
  \<open>NaN\<close> or \<open>Infinity\<close>. None of these reads as a UUID, so the store rejects the statement
  whatever the number is, the awaited query throws, and the \<open>try/catch\<close> of the method
  returns the failure. (A store that kept its identifiers as plain text would compare
  them with the text of the number and select no row; for what \<open>canModifyTask\<close> makes of
  an answer without entry of the user, see \<open>canModifyTask_by_port_entries\<close>.)
\<close>

definition RaciKnexRepository_findByNumber ::
  "string store \<Rightarrow> number \<Rightarrow> error + number RaciEntry list" where
  "RaciKnexRepository_findByNumber s key = Inl (InvalidInputSyntax ''uuid'')"

text \<open>
  The ports implemented by the Knex repositories over one store, with the conversion
  \<open>Number\<close> of the source.
\<close>

definition knexPorts :: "env \<Rightarrow> number ports" where
  "knexPorts E =
     \<lparr> taskRepository_findById = TaskKnexRepository_findById (env_uuid E) (env_entityNow E),
       subtaskRepository_findById = SubTaskKnexRepository_findById (env_uuid E) (env_entityNow E),
       subtaskRepository_save = SubTaskKnexRepository_save (env_uuid E),
       raciRepository_findByTaskId = RaciKnexRepository_findByNumber,
       raciRepository_findBySubTaskId = RaciKnexRepository_findByNumber,
       profileRepository_findByCode = ProfileKnexRepository_findByCode,
       toNumber = Number_of (env_literalValue E) \<rparr>"

section \<open>The progress trigger of the schema\<close>

text \<open>
  The migration that creates table \<open>subtask\<close> declares the trigger \<open>subtask_progress\<close>,
  \<open>AFTER INSERT OR UPDATE OF done ON subtask\<close>, whose function \<open>fn_task_progress\<close> sets the
  progress of the parent task to
  \<open>ROUND(COALESCE(AVG(CASE WHEN done THEN 100 ELSE 0 END),0),2)\<close> over the subtasks of the
  task. The argument is the list of the \<open>done\<close> flags of these subtasks; the average is exact
  (SQL \<open>numeric\<close>) and is rounded to two decimals, half up. The statements of
  \<open>SubTaskKnexRepository\<close> and of \<open>TaskService\<close> write the column \<open>completed\<close> and never the
  column \<open>done\<close>, so the store above has no step at which this function runs.
\<close>

definition fn_task_progress :: "bool list \<Rightarrow> rat" where
  "fn_task_progress dones =
     (let avg = (if dones = [] then 0
                 else sum_list (map (\<lambda>d. if d then 100 else 0) dones)
                        / rat_of_nat (length dones)) :: rat
      in rat_of_int \<lfloor>avg * 100 + 1 / 2\<rfloor> / 100)"

section \<open>Properties stated about the model\<close>

text \<open>The invariants of a task: priority in 1..5, progress in 0..100, planned start not
  after planned end when both are set, title not empty.\<close>

definition startNotAfterEnd :: "Date option \<Rightarrow> Date option \<Rightarrow> bool" where
  "startNotAfterEnd start end' \<longleftrightarrow>
     (case start of None \<Rightarrow> True
      | Some s \<Rightarrow> (case end' of None \<Rightarrow> True | Some e \<Rightarrow> le (timeValue s) (timeValue e)))"

definition Task_invariants :: "Task \<Rightarrow> bool" where
  "Task_invariants t \<longleftrightarrow>
     le (Num 1) (Task_priority t) \<and> le (Task_priority t) (Num 5) \<and>
     le (Num 0) (Task_progress t) \<and> le (Task_progress t) (Num 100) \<and>
     startNotAfterEnd (Task_plannedStart t) (Task_plannedEnd t) \<and>
     Task_title t \<noteq> []"

text \<open>What a setter called at time \<open>now\<close> on the task \<open>t\<close> may do: fail and leave \<open>t\<close> as
  it was, or succeed with the invariants kept and the update date set to \<open>now\<close>.\<close>

definition refuses_or_stamps :: "nat \<Rightarrow> Task \<Rightarrow> (error + unit) \<times> Task \<Rightarrow> bool" where
  "refuses_or_stamps now t res \<longleftrightarrow>
     (case fst res of
        Inl e \<Rightarrow> snd res = t
      | Inr u \<Rightarrow> Task_invariants (snd res) \<and> Task_updatedAt (snd res) = now)"

definition isNotification :: "event \<Rightarrow> bool" where
  "isNotification ev \<longleftrightarrow>
     (case ev of TxBegin \<Rightarrow> False | TxCommit \<Rightarrow> False | TxRollback \<Rightarrow> False
      | TaskCreated d \<Rightarrow> True | TaskUpdated d \<Rightarrow> True | TaskDeleted i \<Rightarrow> True
      | SubTaskUpdated d \<Rightarrow> True)"


text \<open>The (user, letter) pairs that a RACI table holds for one task or subtask.\<close>

definition raciPairs :: "'i \<Rightarrow> 'i raci_row list \<Rightarrow> (string \<times> RaciLetter) list" where
  "raciPairs ident rows =
     map (\<lambda>r. (rr_user_uuid r, rr_letter r)) (filter (\<lambda>r. rr_entity_id r = ident) rows)"

section \<open>Example data\<close>

text \<open>A small store on which the theorems are exercised: one task created by another
  user, without owner, on which the user \<open>exUser\<close> holds one RACI letter. In the example
  environment the commit succeeds; the examples convert identifiers only, so the value
  given to the strings that may be numeric literals plays no role in them.\<close>

definition exEnv :: env where
  "exEnv = \<lparr> env_uuid = ''00000000-0000-4000-8000-0000000000aa'', env_entityNow = 1000,
             env_trxNow = 1001, env_saveNow = 1002, env_commit = None,
             env_literalValue = (\<lambda>s. NaN) \<rparr>"

definition exUser :: string where
  "exUser = ''00000000-0000-4000-8000-000000000001''"

definition exOther :: string where
  "exOther = ''00000000-0000-4000-8000-000000000002''"

definition exTaskId :: string where
  "exTaskId = ''00000000-0000-4000-8000-0000000000f1''"

definition exTaskRow :: task_row where
  "exTaskRow =
     \<lparr> tk_id = exTaskId, tk_phase_code = ''D'', tk_page_id = None, tk_title = ''Design'',
       tk_description = None, tk_priority = Num 2, tk_owner_uuid = None, tk_progress = Num 0,
       tk_created_by = exOther, tk_created_at = 10, tk_updated_at = 10,
       tk_planned_start = None, tk_planned_end = None \<rparr>"

definition exTask :: Task where
  "exTask =
     \<lparr> Task_id = exTaskId, Task_phaseCode = ''D'', Task_pageId = None, Task_title = ''Design'',
       Task_description = None, Task_priority = Num 2, Task_ownerUuid = None,
       Task_progress = Num 0,
       Task_createdBy = exOther, Task_createdAt = 10, Task_updatedAt = 10,
       Task_plannedStart = None, Task_plannedEnd = None \<rparr>"

definition exRaciRow :: "RaciLetter \<Rightarrow> string raci_row" where
  "exRaciRow letter =
     \<lparr> rr_entity_id = exTaskId, rr_user_uuid = exUser, rr_letter = letter,
       rr_created_at = Some 10, rr_updated_at = Some 10 \<rparr>"

definition exStore :: "RaciLetter \<Rightarrow> string store" where
  "exStore letter =
     \<lparr> tbl_task = [exTaskRow], tbl_subtask = [], tbl_task_raci = [exRaciRow letter],
       tbl_subtask_raci = [], tbl_task_profile = [],
       tbl_profile = [\<lparr> pf_code = ''TEC'', pf_name = ''Technician'' \<rparr>] \<rparr>"

text \<open>An input of \<open>createTask\<close> that names the same user under the letters R and A, and
  the task that \<open>Task.create\<close> builds from it.\<close>

definition exCreateInput :: "string list option \<Rightarrow> CreateTaskInput" where
  "exCreateInput accountable =
     \<lparr> in_phaseCode = ''D'', in_pageId = None, in_title = ''Build'', in_description = None,
       in_priority = Num 2, in_ownerUuid = None, in_profilesImpacted = Some [''TEC''],
       in_raci = Some \<lparr> raci_R = Some [exUser], raci_A = accountable, raci_C = None,
                        raci_I = None \<rparr> \<rparr>"

definition exCreatedTask :: Task where
  "exCreatedTask =
     \<lparr> Task_id = env_uuid exEnv, Task_phaseCode = ''D'', Task_pageId = None,
       Task_title = ''Build'', Task_description = None, Task_priority = Num 2,
       Task_ownerUuid = None, Task_progress = Num 0, Task_createdBy = exUser,
       Task_createdAt = 1000, Task_updatedAt = 1000, Task_plannedStart = None,
       Task_plannedEnd = None \<rparr>"

text \<open>The store in which the example task has some progress, and an update of its title
  and priority.\<close>

definition exStoreProgress :: "number \<Rightarrow> string store" where
  "exStoreProgress p = (exStore Letter_C)\<lparr>tbl_task := [exTaskRow\<lparr>tk_progress := p\<rparr>]\<rparr>"

definition exUpdateInput :: UpdateTaskInput where
  "exUpdateInput =
     \<lparr> up_phaseCode = None, up_pageId = None, up_title = Some ''Design v2'',
       up_description = None, up_priority = Some (Num 5), up_ownerUuid = None,
       up_plannedStart = None, up_plannedEnd = None, up_profilesImpacted = None,
       up_raci = None \<rparr>"

text \<open>The example environment with a store that refuses the commit.\<close>

definition exEnvCommitFails :: env where
  "exEnvCommitFails = exEnv\<lparr>env_commit := Some (RepositoryError ''commit'')\<rparr>"

text \<open>A store in which the example task, on which \<open>exUser\<close> holds the letter R, already
  has a subtask titled \<open>step1\<close> created by \<open>exUser\<close> at the time \<open>t\<close>, with one RACI row of
  its own for another user.\<close>

definition exOldSubId :: string where
  "exOldSubId = ''00000000-0000-4000-8000-0000000000b1''"

definition exOldSubtaskRow :: "nat \<Rightarrow> subtask_row" where
  "exOldSubtaskRow t =
     \<lparr> st_id = exOldSubId, st_task_id = exTaskId, st_title = ''step1'', st_description = None,
       st_completed = False, st_created_by = exUser, st_created_at = t, st_updated_at = t \<rparr>"

definition exOldSubtaskRaci :: "string raci_row" where
  "exOldSubtaskRaci =
     \<lparr> rr_entity_id = exOldSubId, rr_user_uuid = exOther, rr_letter = Letter_I,
       rr_created_at = Some 20, rr_updated_at = Some 20 \<rparr>"

definition exSubStore :: "nat \<Rightarrow> string store" where
  "exSubStore t =
     (exStore Letter_R)\<lparr>tbl_subtask := [exOldSubtaskRow t],
                        tbl_subtask_raci := [exOldSubtaskRaci]\<rparr>"

definition exSubTaskData :: SubTaskData where
  "exSubTaskData = \<lparr> sd_title = ''step1'', sd_done = None \<rparr>"

definition exNewSubTask :: SubTask where
  "exNewSubTask =
     \<lparr> SubTask_id = env_uuid exEnv, SubTask_taskId = exTaskId, SubTask_title = ''step1'',
       SubTask_description = None, SubTask_completed = False, SubTask_createdBy = exUser,
       SubTask_createdAt = 1000, SubTask_updatedAt = 1000 \<rparr>"

definition exNewSubtaskRow :: subtask_row where
  "exNewSubtaskRow =
     \<lparr> st_id = env_uuid exEnv, st_task_id = exTaskId, st_title = ''step1'',
       st_description = None, st_completed = False, st_created_by = exUser,
       st_created_at = 1001, st_updated_at = 1001 \<rparr>"

section \<open>Evaluation of the value objects and of the example data\<close>

lemma gt_ge_simps [simp]: "gt a b = lt b a" "ge a b = le b a"
  by (simp_all add: gt_def ge_def)

lemma UUID_isValid_examples:
  "UUID_isValid exUser" "UUID_isValid exOther" "UUID_isValid exTaskId"
  "UUID_isValid (env_uuid exEnv)"
  by (simp_all add: exUser_def exOther_def exTaskId_def exEnv_def UUID_isValid_def
      uuidShape_def isHexDigit_def eval_nat_numeral)

lemma new_UUID_valid: "UUID_isValid v \<Longrightarrow> new_UUID v = Inr v"
  by (simp add: new_UUID_def)

lemma nonempty_examples: "exUser \<noteq> []" "exOther \<noteq> []" "exTaskId \<noteq> []"
  by (simp_all add: exUser_def exOther_def exTaskId_def)

lemma distinct_examples:
  "exUser \<noteq> exOther" "exOther \<noteq> exUser" "exTaskId \<noteq> env_uuid exEnv"
  by (simp_all add: exUser_def exOther_def exTaskId_def exEnv_def)

lemma new_PhaseCode_D: "new_PhaseCode ''D'' = Inr ''D''"
  by (simp add: new_PhaseCode_def PhaseCode_isValid_def validCodes_def)

lemma new_Priority_2: "new_Priority (Num 2) = Inr (Num 2)"
  by (simp add: new_Priority_def Priority_isValid_def Number_isInteger_def ge_def)

lemma isBlank_Design: "\<not> isBlank ''Design''"
  by (simp add: isBlank_def trim_def isWhiteSpace_def)

lemma Task_toDomain_exTaskRow: "Task_toDomain gen now exTaskRow = Inr exTask"
  by (simp add: Task_toDomain_def Task_create_def new_Task_def exTaskRow_def exTask_def
      isBlank_Design nonempty_examples datesOutOfOrder_def truthy_def new_PhaseCode_D
      new_Priority_2 new_UUID_valid UUID_isValid_examples)

lemma findById_exStore:
  "taskRepository_findById (knexPorts E) (exStore letter) exTaskId = Inr exTask"
  by (simp add: knexPorts_def TaskKnexRepository_findById_def exStore_def first_def
      Task_toDomain_exTaskRow) (simp add: exTaskRow_def)

lemma not_elevated_DEV: "\<not> isElevated ''DEV''"
  by (simp add: isElevated_def)

lemma exTask_owner: "Task_ownerUuid exTask \<noteq> Some exUser"
  by (simp add: exTask_def)

section \<open>Authorization\<close>

lemma hasPermission_iff:
  "hasPermission userUuid raciAssignments \<longleftrightarrow>
     (\<exists>r \<in> set raciAssignments.
        entry_userUuid r = userUuid \<and> entry_letter r \<in> {Letter_R, Letter_A})"
  by (induction raciAssignments) auto

text \<open>
  The decision of \<open>canModifyTask\<close> in terms of what the RACI port answers at the converted
  key: with entries that carry only C or I for the user, or none, it is \<open>success(false)\<close>;
  an elevated role, the owner, and an entry of letter R or A give \<open>success(true)\<close>.
\<close>

lemma canModifyTask_by_port_entries:
  "(\<not> isElevated userRole \<and> taskRepository_findById P s taskId = Inr task
      \<and> Task_ownerUuid task \<noteq> Some userUuid
      \<and> raciRepository_findByTaskId P s (toNumber P taskId) = Inr raciAssignments
      \<and> (\<forall>r \<in> set raciAssignments. entry_userUuid r = userUuid
             \<longrightarrow> entry_letter r \<in> {Letter_C, Letter_I})
    \<longrightarrow> canModifyTask P s taskId userUuid userRole = Inr False)
   \<and> (isElevated userRole
        \<or> (taskRepository_findById P s taskId = Inr task
            \<and> (Task_ownerUuid task = Some userUuid
                \<or> (raciRepository_findByTaskId P s (toNumber P taskId) = Inr raciAssignments
                    \<and> (\<exists>r \<in> set raciAssignments. entry_userUuid r = userUuid
                          \<and> entry_letter r \<in> {Letter_R, Letter_A}))))
    \<longrightarrow> canModifyTask P s taskId userUuid userRole = Inr True)"
  by (auto simp: canModifyTask_def hasPermission_iff isTaskLocked_def)

text \<open>The identifiers that the entities accept are not numeric literals.\<close>

lemma hyphens_UUID:
  assumes "UUID_isValid v"
  shows "hyphens v = 4"
proof -
  have dash: "(c = CHR ''-'') = (uuidShape c = Dash)" for c
    by (simp add: uuidShape_def isHexDigit_def)
  have "hyphens v = length (filter (\<lambda>x. x = Dash) (map uuidShape v))"
    by (simp add: hyphens_def dash filter_map comp_def)
  also have "\<dots> = 4"
    using assms by (simp add: UUID_isValid_def)
  finally show ?thesis .
qed

lemma Number_of_UUID: "UUID_isValid v \<Longrightarrow> Number_of literalValue v = NaN"
  by (simp add: Number_of_def hyphens_UUID)

text \<open>
  With the Knex repositories, a user without elevated role who does not own the task
  never gets an answer from the RACI letters: the lookup is made with a number, and
  \<open>canModifyTask\<close> returns the failure of the repository, whatever the table of the RACI
  assignments holds.
\<close>

lemma canModifyTask_knexPorts:
  assumes "\<not> isElevated userRole"
    and "taskRepository_findById (knexPorts E) s taskId = Inr task"
    and "Task_ownerUuid task \<noteq> Some userUuid"
  shows "canModifyTask (knexPorts E) s taskId userUuid userRole
           = Inl (InvalidInputSyntax ''uuid'')"
proof -
  have "raciRepository_findByTaskId (knexPorts E) s (toNumber (knexPorts E) taskId)
      = Inl (InvalidInputSyntax ''uuid'')"
    by (simp add: knexPorts_def RaciKnexRepository_findByNumber_def)
  with assms show ?thesis by (simp add: canModifyTask_def)
qed

text \<open>
  Claim C6 fails on the code at the following inputs. On the example task the user
  \<open>exUser\<close> is not the owner and has the role DEV. Holding the letter R, and likewise the
  letter A, the user does not get \<open>success(true)\<close> from \<open>canModifyTask\<close>: the service calls
  the RACI repository with \<open>Number(taskId)\<close>, which is \<open>NaN\<close> for the identifier of the task
  as for every UUID, and returns the failure of this lookup. Holding the letter C the
  user gets the same failure, not \<open>success(false)\<close>.
\<close>

theorem canModifyTask_ignores_raci_letters:
  "toNumber (knexPorts exEnv) exTaskId = NaN
   \<and> canModifyTask (knexPorts exEnv) (exStore Letter_R) exTaskId exUser ''DEV''
       = Inl (InvalidInputSyntax ''uuid'')
   \<and> canModifyTask (knexPorts exEnv) (exStore Letter_A) exTaskId exUser ''DEV''
       = Inl (InvalidInputSyntax ''uuid'')
   \<and> canModifyTask (knexPorts exEnv) (exStore Letter_C) exTaskId exUser ''DEV''
       = Inl (InvalidInputSyntax ''uuid'')"
proof -
  have "toNumber (knexPorts exEnv) exTaskId = NaN"
    by (simp add: knexPorts_def Number_of_UUID UUID_isValid_examples)
  then show ?thesis
    by (simp add: canModifyTask_knexPorts [OF not_elevated_DEV findById_exStore exTask_owner])
qed

text \<open>\<open>canChangePhase\<close> does not consult the RACI assignments.\<close>

lemma canChangePhase_not_owner:
  assumes "\<not> isElevated userRole"
    and "taskRepository_findById P s taskId = Inr task"
    and "Task_ownerUuid task \<noteq> Some userUuid"
  shows "canChangePhase P s taskId userUuid userRole = Inr False"
  using assms by (simp add: canChangePhase_def)

text \<open>
  Claim C7 fails on the code at the following input. The user \<open>exUser\<close> holds the letter A
  on the example task, is not its owner and has the role DEV. \<open>canChangePhase\<close> returns
  \<open>success(false)\<close>, as the claim says, but \<open>canModifyTask\<close> for the same user and task does
  not return \<open>success(true)\<close>: it returns the failure of the RACI lookup made with
  \<open>Number(taskId)\<close>. This is the defect of claim C6.
\<close>

theorem canChangePhase_false_canModifyTask_fails:
  "canChangePhase (knexPorts exEnv) (exStore Letter_A) exTaskId exUser ''DEV'' = Inr False
   \<and> canModifyTask (knexPorts exEnv) (exStore Letter_A) exTaskId exUser ''DEV''
       = Inl (InvalidInputSyntax ''uuid'')"
  by (simp add: canChangePhase_not_owner [OF not_elevated_DEV findById_exStore exTask_owner]
      canModifyTask_knexPorts [OF not_elevated_DEV findById_exStore exTask_owner])

text \<open>
  Claim C10. \<open>isTaskLocked\<close> answers \<open>success({locked: false})\<close> for every task and user, and
  \<open>canModifyTask\<close> has no outcome other than \<open>success(true)\<close>, \<open>success(false)\<close>, or the
  failure that the task repository or the RACI repository returned: the failure of the
  lock conflict is never produced by \<open>canModifyTask\<close> itself.
\<close>

theorem canModifyTask_outcomes:
  "isTaskLocked taskId userUuid = Inr \<lparr> locked = False, lockedBy = None \<rparr>
   \<and> (canModifyTask P s taskId userUuid userRole = Inr True
      \<or> canModifyTask P s taskId userUuid userRole = Inr False
      \<or> (\<exists>e. taskRepository_findById P s taskId = Inl e
              \<and> canModifyTask P s taskId userUuid userRole = Inl e)
      \<or> (\<exists>e. raciRepository_findByTaskId P s (toNumber P taskId) = Inl e
              \<and> canModifyTask P s taskId userUuid userRole = Inl e))"
  by (auto simp: canModifyTask_def isTaskLocked_def split: sum.splits)

theorem canModifyTask_outcomes_witness:
  "canModifyTask (knexPorts exEnv) (exStore Letter_R) ''no-such-task'' exUser ''DEV''
     = Inl (TaskNotFound ''no-such-task'')"
  using canModifyTask_outcomes [of "''no-such-task''" exUser "knexPorts exEnv"
      "exStore Letter_R" "''DEV''"]
  by (simp add: canModifyTask_def isElevated_def knexPorts_def TaskKnexRepository_findById_def
      exStore_def exTaskRow_def exTaskId_def first_def)

section \<open>The setters of Task\<close>

lemma exTask_invariants: "Task_invariants exTask"
  by (simp add: Task_invariants_def exTask_def startNotAfterEnd_def)

lemma le_lt_Num:
  "\<not> lt n (Num a) \<Longrightarrow> \<not> gt n (Num b) \<Longrightarrow> n \<noteq> NaN \<Longrightarrow> le (Num a) n \<and> le n (Num b)"
  by (cases n) (auto simp: gt_def)

lemma startNotAfterEnd_valid:
  assumes "\<not> datesOutOfOrder start end'" and "\<not> invalidDate start" and "\<not> invalidDate end'"
  shows "startNotAfterEnd start end'"
proof (cases start)
  case None
  then show ?thesis by (simp add: startNotAfterEnd_def)
next
  case start: (Some s)
  show ?thesis
  proof (cases end')
    case None
    with start show ?thesis by (simp add: startNotAfterEnd_def)
  next
    case (Some e)
    with start assms show ?thesis
      by (cases s; cases e)
        (auto simp: startNotAfterEnd_def datesOutOfOrder_def invalidDate_def timeValue_def
          gt_def)
  qed
qed

text \<open>\<open>Task.create\<close> and the setters keep the invariants as long as the progress is not
  \<open>NaN\<close> and no planned date is the invalid date.\<close>

lemma Task_create_invariants:
  assumes "Task_create gen now props = Inr t"
    and "props_progress props \<noteq> NaN"
    and "\<not> invalidDate (props_plannedStart props)" and "\<not> invalidDate (props_plannedEnd props)"
  shows "Task_invariants t"
proof -
  from assms(1) have range: "\<not> lt (props_progress props) (Num 0)"
      "\<not> gt (props_progress props) (Num 100)"
    and dates: "\<not> datesOutOfOrder (props_plannedStart props) (props_plannedEnd props)"
    and title: "props_title props \<noteq> []"
    and built: "new_Task gen now props = Inr t"
    by (auto simp: Task_create_def isBlank_def split: if_splits)
  from built have fields: "Task_progress t = props_progress props"
      "Task_plannedStart t = props_plannedStart props"
      "Task_plannedEnd t = props_plannedEnd props" "Task_title t = props_title props"
    and priority: "Priority_isValid (Task_priority t)"
    by (auto simp: new_Task_def new_Priority_def split: sum.splits if_splits)
  from priority have "le (Num 1) (Task_priority t) \<and> le (Task_priority t) (Num 5)"
    by (simp add: Priority_isValid_def ge_def)
  with le_lt_Num [OF range assms(2)] startNotAfterEnd_valid [OF dates assms(3,4)] title fields
  show ?thesis by (simp add: Task_invariants_def)
qed

lemma updateTitle_refuses_or_stamps:
  "Task_invariants t \<Longrightarrow> refuses_or_stamps now t (updateTitle now title t)"
  by (auto simp: refuses_or_stamps_def updateTitle_def Task_invariants_def isBlank_def)

lemma updateDescription_refuses_or_stamps:
  "Task_invariants t \<Longrightarrow> refuses_or_stamps now t (updateDescription now description t)"
  by (auto simp: refuses_or_stamps_def updateDescription_def Task_invariants_def)

lemma updatePriority_refuses_or_stamps:
  "Task_invariants t \<Longrightarrow> refuses_or_stamps now t (updatePriority now priority t)"
  by (auto simp: refuses_or_stamps_def updatePriority_def Task_invariants_def new_Priority_def
      Priority_isValid_def ge_def)

lemma updatePhase_refuses_or_stamps:
  "Task_invariants t \<Longrightarrow> refuses_or_stamps now t (updatePhase now phaseCode t)"
  by (auto simp: refuses_or_stamps_def updatePhase_def Task_invariants_def new_PhaseCode_def)

lemma updateOwner_refuses_or_stamps:
  "Task_invariants t \<Longrightarrow> refuses_or_stamps now t (updateOwner now ownerUuid t)"
  by (auto simp: refuses_or_stamps_def updateOwner_def Task_invariants_def new_UUID_def
      split: sum.splits)

lemma updateProgress_refuses_or_stamps:
  assumes "Task_invariants t" and "progress \<noteq> NaN"
  shows "refuses_or_stamps now t (updateProgress now progress t)"
proof (cases "lt progress (Num 0) \<or> gt progress (Num 100)")
  case True
  then show ?thesis by (simp add: refuses_or_stamps_def updateProgress_def)
next
  case False
  with le_lt_Num [of progress 0 100] assms(2)
  have "le (Num 0) progress \<and> le progress (Num 100)" by simp
  with False assms(1) show ?thesis
    by (simp add: refuses_or_stamps_def updateProgress_def Task_invariants_def)
qed

lemma updatePlannedDates_refuses_or_stamps:
  assumes "Task_invariants t" and "\<not> invalidDate start" and "\<not> invalidDate end'"
  shows "refuses_or_stamps now t (updatePlannedDates now start end' t)"
proof (cases "datesOutOfOrder start end'")
  case True
  then show ?thesis by (simp add: refuses_or_stamps_def updatePlannedDates_def)
next
  case False
  with startNotAfterEnd_valid [OF False assms(2,3)] assms(1) show ?thesis
    by (simp add: refuses_or_stamps_def updatePlannedDates_def Task_invariants_def)
qed

lemma setters_refuse_invalid_values:
  "isBlank title \<Longrightarrow> updateTitle now title t = (Inl TaskTitleRequired, t)"
  "\<not> Priority_isValid priority
     \<Longrightarrow> updatePriority now priority t = (Inl (InvalidPriority priority), t)"
  "lt progress (Num 0) \<or> gt progress (Num 100)
     \<Longrightarrow> updateProgress now progress t = (Inl ProgressOutOfRange, t)"
  "datesOutOfOrder start end'
     \<Longrightarrow> updatePlannedDates now start end' t = (Inl PlannedDatesOrder, t)"
  by (auto simp: updateTitle_def updatePriority_def new_Priority_def
      updateProgress_def updatePlannedDates_def)

text \<open>What the setters accept, they store, with the update date.\<close>

lemma setters_store_accepted_values:
  "\<not> isBlank title
     \<Longrightarrow> updateTitle now title t = (Inr (), t\<lparr>Task_title := title, Task_updatedAt := now\<rparr>)"
  "updateDescription now description t
     = (Inr (), t\<lparr>Task_description := description, Task_updatedAt := now\<rparr>)"
  "Priority_isValid priority
     \<Longrightarrow> updatePriority now priority t
           = (Inr (), t\<lparr>Task_priority := priority, Task_updatedAt := now\<rparr>)"
  "PhaseCode_isValid phaseCode
     \<Longrightarrow> updatePhase now phaseCode t
           = (Inr (), t\<lparr>Task_phaseCode := phaseCode, Task_updatedAt := now\<rparr>)"
  "UUID_isValid ownerUuid
     \<Longrightarrow> updateOwner now (Some ownerUuid) t
           = (Inr (), t\<lparr>Task_ownerUuid := Some ownerUuid, Task_updatedAt := now\<rparr>)"
  "\<not> lt progress (Num 0) \<Longrightarrow> \<not> gt progress (Num 100)
     \<Longrightarrow> updateProgress now progress t
           = (Inr (), t\<lparr>Task_progress := progress, Task_updatedAt := now\<rparr>)"
  "\<not> datesOutOfOrder start end'
     \<Longrightarrow> updatePlannedDates now start end' t
           = (Inr (), t\<lparr>Task_plannedStart := start, Task_plannedEnd := end',
                            Task_updatedAt := now\<rparr>)"
proof -
  show "UUID_isValid ownerUuid
     \<Longrightarrow> updateOwner now (Some ownerUuid) t
           = (Inr (), t\<lparr>Task_ownerUuid := Some ownerUuid, Task_updatedAt := now\<rparr>)"
  proof -
    assume valid: "UUID_isValid ownerUuid"
    then have "ownerUuid \<noteq> []" by (auto simp: UUID_isValid_def)
    with valid show ?thesis by (simp add: updateOwner_def truthy_def new_UUID_def)
  qed
qed (simp_all add: updateTitle_def updateDescription_def updatePriority_def new_Priority_def
    updatePhase_def new_PhaseCode_def updateProgress_def updatePlannedDates_def)

text \<open>
  For every progress other than \<open>NaN\<close> and all planned dates other than the invalid date,
  every setter of the Task entity, called on a task that satisfies the invariants, either
  fails and leaves the task unchanged, or succeeds, keeps the invariants and stamps the
  update date with the current time; a blank title, a priority that is not an integer
  of 1..5, a progress below 0 or above 100 and a planned start after the planned end are
  refused with the task left unchanged.
\<close>

lemma Task_setters_revalidate:
  assumes "Task_invariants t"
    and "progress \<noteq> NaN" and "\<not> invalidDate start" and "\<not> invalidDate end'"
  shows "refuses_or_stamps now t (updateTitle now title t)
       \<and> refuses_or_stamps now t (updateDescription now description t)
       \<and> refuses_or_stamps now t (updatePriority now priority t)
       \<and> refuses_or_stamps now t (updatePhase now phaseCode t)
       \<and> refuses_or_stamps now t (updateOwner now ownerUuid t)
       \<and> refuses_or_stamps now t (updateProgress now progress t)
       \<and> refuses_or_stamps now t (updatePlannedDates now start end' t)
       \<and> (isBlank title \<longrightarrow> updateTitle now title t = (Inl TaskTitleRequired, t))
       \<and> (\<not> Priority_isValid priority
            \<longrightarrow> updatePriority now priority t = (Inl (InvalidPriority priority), t))
       \<and> (lt progress (Num 0) \<or> gt progress (Num 100)
            \<longrightarrow> updateProgress now progress t = (Inl ProgressOutOfRange, t))
       \<and> (datesOutOfOrder start end'
            \<longrightarrow> updatePlannedDates now start end' t = (Inl PlannedDatesOrder, t))"
  using assms
  by (simp add: updateTitle_refuses_or_stamps updateDescription_refuses_or_stamps
      updatePriority_refuses_or_stamps updatePhase_refuses_or_stamps
      updateOwner_refuses_or_stamps updateProgress_refuses_or_stamps
      updatePlannedDates_refuses_or_stamps setters_refuse_invalid_values)

lemma setters_examples:
  "updatePriority 2000 (Num 9) exTask = (Inl (InvalidPriority (Num 9)), exTask)"
  "updatePriority 2000 NaN exTask = (Inl (InvalidPriority NaN), exTask)"
  "updatePlannedDates 2000 (Some (DateAt 7)) (Some (DateAt 3)) exTask
     = (Inl PlannedDatesOrder, exTask)"
  "updateTitle 2000 ''  '' exTask = (Inl TaskTitleRequired, exTask)"
  "updateProgress 2000 (Num 101) exTask = (Inl ProgressOutOfRange, exTask)"
  "updatePriority 2000 (Num 4) exTask
     = (Inr (), exTask\<lparr>Task_priority := Num 4, Task_updatedAt := 2000\<rparr>)"
  by (simp_all add: isBlank_def trim_def isWhiteSpace_def datesOutOfOrder_def timeValue_def
      gt_def ge_def updatePriority_def new_Priority_def Priority_isValid_def
      Number_isInteger_def updatePlannedDates_def updateTitle_def updateProgress_def)

text \<open>
  Claim C8 fails on the code at the following inputs. The example task satisfies the
  invariants. \<open>updateProgress\<close> called with \<open>NaN\<close> succeeds and stores it, because both
  comparisons of its range test are false for \<open>NaN\<close>: the progress of the task is then not
  in 0..100. \<open>updatePlannedDates\<close> called with the invalid date as start and a valid end
  succeeds and stores both, because the comparison of two dates is false as soon as one
  is invalid: the planned start is then not at or before the planned end. Both calls
  stamp the update date as a successful mutation does.
\<close>

theorem setters_accept_NaN_and_invalid_date:
  "Task_invariants exTask
   \<and> updateProgress 2000 NaN exTask
       = (Inr (), exTask\<lparr>Task_progress := NaN, Task_updatedAt := 2000\<rparr>)
   \<and> \<not> (le (Num 0) NaN \<and> le NaN (Num 100))
   \<and> \<not> Task_invariants (snd (updateProgress 2000 NaN exTask))
   \<and> updatePlannedDates 2000 (Some InvalidDate) (Some (DateAt 0)) exTask
       = (Inr (), exTask\<lparr>Task_plannedStart := Some InvalidDate,
                        Task_plannedEnd := Some (DateAt 0), Task_updatedAt := 2000\<rparr>)
   \<and> \<not> startNotAfterEnd (Some InvalidDate) (Some (DateAt 0))
   \<and> \<not> Task_invariants (snd (updatePlannedDates 2000 (Some InvalidDate) (Some (DateAt 0))
                                exTask))"
proof -
  have "\<not> Task_invariants (exTask\<lparr>Task_progress := NaN, Task_updatedAt := 2000\<rparr>)"
    by (simp add: Task_invariants_def)
  moreover have "\<not> Task_invariants
      (exTask\<lparr>Task_plannedStart := Some InvalidDate, Task_plannedEnd := Some (DateAt 0),
               Task_updatedAt := 2000\<rparr>)"
    by (simp add: Task_invariants_def startNotAfterEnd_def timeValue_def)
  ultimately show ?thesis
    by (simp add: exTask_invariants updateProgress_def updatePlannedDates_def
        datesOutOfOrder_def timeValue_def startNotAfterEnd_def)
qed

section \<open>RACI assignments\<close>

lemma length_updateLetter [simp]:
  "length (updateLetter now ident userUuid letter rows) = length rows"
  by (simp add: updateLetter_def)

lemma filter_updateLetter_same:
  "filter (raciOf ident userUuid) (updateLetter now ident userUuid letter rows)
     = map (\<lambda>r. r\<lparr>rr_letter := letter, rr_updated_at := Some now\<rparr>)
         (filter (raciOf ident userUuid) rows)"
  by (induction rows) (auto simp: updateLetter_def raciOf_def)

lemma filter_updateLetter_other:
  "filter (\<lambda>r. \<not> raciOf ident userUuid r) (updateLetter now ident userUuid letter rows)
     = filter (\<lambda>r. \<not> raciOf ident userUuid r) rows"
  by (induction rows) (auto simp: updateLetter_def raciOf_def)

lemma letters_updateLetter:
  "map rr_letter (filter (raciOf ident userUuid) (updateLetter now ident userUuid letter rows))
     = replicate (length (filter (raciOf ident userUuid) rows)) letter"
  by (simp add: filter_updateLetter_same map_replicate_const [symmetric] comp_def)

lemma first_filter_Some: "filter p rows \<noteq> [] \<Longrightarrow> \<exists>r. first (filter p rows) = Some r"
  by (cases "filter p rows") (simp_all add: first_def)

lemma read_letters_task:
  "RaciKnexRepository_findByTaskId render s ident = Inr entries
   \<Longrightarrow> map entry_letter (filter (\<lambda>e. entry_userUuid e = userUuid) entries)
       = map rr_letter (filter (raciOf ident userUuid) (tbl_task_raci s))"
  by (auto simp: RaciKnexRepository_findByTaskId_def raciOf_def filter_map comp_def
      intro!: arg_cong [where f = "map rr_letter"] filter_cong)

lemma read_letters_subtask:
  "RaciKnexRepository_findBySubTaskId render s ident = Inr entries
   \<Longrightarrow> map entry_letter (filter (\<lambda>e. entry_userUuid e = userUuid) entries)
       = map rr_letter (filter (raciOf ident userUuid) (tbl_subtask_raci s))"
  by (auto simp: RaciKnexRepository_findBySubTaskId_def raciOf_def filter_map comp_def
      intro!: arg_cong [where f = "map rr_letter"] filter_cong)

lemma saveTaskRaci_existing:
  assumes "filter (raciOf taskId userUuid) (tbl_task_raci s) \<noteq> []"
  shows "saveTaskRaci now taskId userUuid letter s
           = (Inr (), s\<lparr>tbl_task_raci :=
                          updateLetter now taskId userUuid letter (tbl_task_raci s)\<rparr>)"
  using first_filter_Some [OF assms] by (auto simp: saveTaskRaci_def)

lemma saveSubTaskRaci_existing:
  assumes "filter (raciOf subtaskId userUuid) (tbl_subtask_raci s) \<noteq> []"
  shows "saveSubTaskRaci now subtaskId userUuid letter s
           = (Inr (), s\<lparr>tbl_subtask_raci :=
                          updateLetter now subtaskId userUuid letter (tbl_subtask_raci s)\<rparr>)"
  using first_filter_Some [OF assms] by (auto simp: saveSubTaskRaci_def)

text \<open>
  Claim C4. When the table holds the assignment of a (task, user) pair, \<open>saveTaskRaci\<close>
  for that pair succeeds, adds no row, and leaves the pair with the new letter only: the
  rows of the pair, and the entries that \<open>findByTaskId\<close> then returns for the user, carry
  exactly one letter, the new one. The same holds for \<open>saveSubTaskRaci\<close> and
  \<open>findBySubTaskId\<close> on a (subtask, user) pair.
\<close>

theorem saveRaci_replaces_existing_letter:
  "(length (filter (raciOf taskId userUuid) (tbl_task_raci s)) = 1 \<longrightarrow>
      (\<exists>s' entries.
         saveTaskRaci now taskId userUuid letter s = (Inr (), s')
         \<and> length (tbl_task_raci s') = length (tbl_task_raci s)
         \<and> map rr_letter (filter (raciOf taskId userUuid) (tbl_task_raci s')) = [letter]
         \<and> RaciKnexRepository_findByTaskId render s' taskId = Inr entries
         \<and> map entry_letter (filter (\<lambda>e. entry_userUuid e = userUuid) entries) = [letter]))
   \<and> (length (filter (raciOf subtaskId userUuid) (tbl_subtask_raci s)) = 1 \<longrightarrow>
      (\<exists>s' entries.
         saveSubTaskRaci now subtaskId userUuid letter s = (Inr (), s')
         \<and> length (tbl_subtask_raci s') = length (tbl_subtask_raci s)
         \<and> map rr_letter (filter (raciOf subtaskId userUuid) (tbl_subtask_raci s')) = [letter]
         \<and> RaciKnexRepository_findBySubTaskId render s' subtaskId = Inr entries
         \<and> map entry_letter (filter (\<lambda>e. entry_userUuid e = userUuid) entries) = [letter]))"
proof (intro conjI impI)
  assume one: "length (filter (raciOf taskId userUuid) (tbl_task_raci s)) = 1"
  then have ne: "filter (raciOf taskId userUuid) (tbl_task_raci s) \<noteq> []" by auto
  let ?s' = "s\<lparr>tbl_task_raci := updateLetter now taskId userUuid letter (tbl_task_raci s)\<rparr>"
  obtain entries where rd: "RaciKnexRepository_findByTaskId render ?s' taskId = Inr entries"
    by (simp add: RaciKnexRepository_findByTaskId_def)
  have letters: "map rr_letter (filter (raciOf taskId userUuid) (tbl_task_raci ?s')) = [letter]"
    using one by (simp add: letters_updateLetter)
  have "map entry_letter (filter (\<lambda>e. entry_userUuid e = userUuid) entries) = [letter]"
    using read_letters_task [OF rd] letters by simp
  with saveTaskRaci_existing [OF ne] rd letters
  show "\<exists>s' entries.
         saveTaskRaci now taskId userUuid letter s = (Inr (), s')
         \<and> length (tbl_task_raci s') = length (tbl_task_raci s)
         \<and> map rr_letter (filter (raciOf taskId userUuid) (tbl_task_raci s')) = [letter]
         \<and> RaciKnexRepository_findByTaskId render s' taskId = Inr entries
         \<and> map entry_letter (filter (\<lambda>e. entry_userUuid e = userUuid) entries) = [letter]"
    by (intro exI [of _ ?s'] exI [of _ entries]) simp
next
  assume one: "length (filter (raciOf subtaskId userUuid) (tbl_subtask_raci s)) = 1"
  then have ne: "filter (raciOf subtaskId userUuid) (tbl_subtask_raci s) \<noteq> []" by auto
  let ?s' = "s\<lparr>tbl_subtask_raci :=
                 updateLetter now subtaskId userUuid letter (tbl_subtask_raci s)\<rparr>"
  obtain entries where rd:
    "RaciKnexRepository_findBySubTaskId render ?s' subtaskId = Inr entries"
    by (simp add: RaciKnexRepository_findBySubTaskId_def)
  have letters:
    "map rr_letter (filter (raciOf subtaskId userUuid) (tbl_subtask_raci ?s')) = [letter]"
    using one by (simp add: letters_updateLetter)
  have "map entry_letter (filter (\<lambda>e. entry_userUuid e = userUuid) entries) = [letter]"
    using read_letters_subtask [OF rd] letters by simp
  with saveSubTaskRaci_existing [OF ne] rd letters
  show "\<exists>s' entries.
         saveSubTaskRaci now subtaskId userUuid letter s = (Inr (), s')
         \<and> length (tbl_subtask_raci s') = length (tbl_subtask_raci s)
         \<and> map rr_letter (filter (raciOf subtaskId userUuid) (tbl_subtask_raci s')) = [letter]
         \<and> RaciKnexRepository_findBySubTaskId render s' subtaskId = Inr entries
         \<and> map entry_letter (filter (\<lambda>e. entry_userUuid e = userUuid) entries) = [letter]"
    by (intro exI [of _ ?s'] exI [of _ entries]) simp
qed

theorem saveRaci_replaces_existing_letter_witness:
  "(\<exists>s'. saveTaskRaci 50 exTaskId exUser Letter_A (exStore Letter_C) = (Inr (), s')
          \<and> length (tbl_task_raci s') = 1
          \<and> map rr_letter (filter (raciOf exTaskId exUser) (tbl_task_raci s')) = [Letter_A])
   \<and> (\<exists>s'. saveSubTaskRaci 50 exTaskId exUser Letter_I
              ((exStore Letter_C)\<lparr>tbl_subtask_raci := [exRaciRow Letter_R]\<rparr>) = (Inr (), s')
          \<and> length (tbl_subtask_raci s') = 1
          \<and> map rr_letter (filter (raciOf exTaskId exUser) (tbl_subtask_raci s')) = [Letter_I])"
proof -
  have one: "length (filter (raciOf exTaskId exUser) (tbl_task_raci (exStore Letter_C))) = 1"
    by (simp add: exStore_def exRaciRow_def raciOf_def)
  have two: "length (filter (raciOf exTaskId exUser)
               (tbl_subtask_raci ((exStore Letter_C)\<lparr>tbl_subtask_raci := [exRaciRow Letter_R]\<rparr>))) = 1"
    by (simp add: exRaciRow_def raciOf_def)
  have len: "length (tbl_task_raci (exStore Letter_C)) = 1"
    by (simp add: exStore_def)
  show ?thesis
    using saveRaci_replaces_existing_letter [of exTaskId exUser "exStore Letter_C" 50 Letter_A
        "\<lambda>i. i" exTaskId]
      saveRaci_replaces_existing_letter [of exTaskId exUser
        "(exStore Letter_C)\<lparr>tbl_subtask_raci := [exRaciRow Letter_R]\<rparr>" 50 Letter_I
        "\<lambda>i. i" exTaskId]
      one two len
    by auto
qed

section \<open>Inserts and transactions\<close>

lemma insert_task_raci_Inr:
  "insert_task_raci r s = Inr s' \<Longrightarrow> s' = s\<lparr>tbl_task_raci := tbl_task_raci s @ [r]\<rparr>"
  by (auto simp: insert_task_raci_def split: if_splits)

lemma insert_subtask_raci_Inr:
  "insert_subtask_raci r s = Inr s'
   \<Longrightarrow> s' = s\<lparr>tbl_subtask_raci := tbl_subtask_raci s @ [r]\<rparr>"
  by (auto simp: insert_subtask_raci_def split: if_splits)

lemma insert_task_profile_Inr:
  "insert_task_profile r s = Inr s'
   \<Longrightarrow> s' = s\<lparr>tbl_task_profile := tbl_task_profile s @ [r]\<rparr>"
  by (auto simp: insert_task_profile_def split: if_splits)

lemma insertEach_task_raci:
  "insertEach insert_task_raci rows s = Inr s'
   \<Longrightarrow> s' = s\<lparr>tbl_task_raci := tbl_task_raci s @ rows\<rparr>"
proof (induction rows arbitrary: s)
  case Nil
  then show ?case by simp
next
  case (Cons r rows)
  from Cons.prems obtain s1 where first: "insert_task_raci r s = Inr s1"
    and rest: "insertEach insert_task_raci rows s1 = Inr s'"
    by (auto split: sum.splits)
  from Cons.IH [OF rest] insert_task_raci_Inr [OF first] show ?case by simp
qed

lemma insertEach_subtask_raci:
  "insertEach insert_subtask_raci rows s = Inr s'
   \<Longrightarrow> s' = s\<lparr>tbl_subtask_raci := tbl_subtask_raci s @ rows\<rparr>"
proof (induction rows arbitrary: s)
  case Nil
  then show ?case by simp
next
  case (Cons r rows)
  from Cons.prems obtain s1 where first: "insert_subtask_raci r s = Inr s1"
    and rest: "insertEach insert_subtask_raci rows s1 = Inr s'"
    by (auto split: sum.splits)
  from Cons.IH [OF rest] insert_subtask_raci_Inr [OF first] show ?case by simp
qed

lemma insertEach_task_profile:
  "insertEach insert_task_profile rows s = Inr s'
   \<Longrightarrow> s' = s\<lparr>tbl_task_profile := tbl_task_profile s @ rows\<rparr>"
proof (induction rows arbitrary: s)
  case Nil
  then show ?case by simp
next
  case (Cons r rows)
  from Cons.prems obtain s1 where first: "insert_task_profile r s = Inr s1"
    and rest: "insertEach insert_task_profile rows s1 = Inr s'"
    by (auto split: sum.splits)
  from Cons.IH [OF rest] insert_task_profile_Inr [OF first] show ?case by simp
qed

lemma insert_task_Inr:
  "insert_task r s = Inr s' \<Longrightarrow> s' = s\<lparr>tbl_task := tbl_task s @ [r]\<rparr>"
  by (auto simp: insert_task_def split: if_splits)

lemma first_mem: "first xs = Some x \<Longrightarrow> x \<in> set xs"
  by (cases xs) (auto simp: first_def)

lemma first_orderByDesc_mem:
  "first (orderByDesc column (filter P rows)) = Some x \<Longrightarrow> x \<in> set rows \<and> P x"
  by (auto simp: orderByDesc_def dest!: first_mem)

lemma insert_subtask_Inr:
  "insert_subtask r s = Inr s' \<Longrightarrow> s' = s\<lparr>tbl_subtask := tbl_subtask s @ [r]\<rparr>"
  by (auto simp: insert_subtask_def split: if_splits)

lemma transaction_Resolved:
  "callback s = (Resolved result, s', evs)
   \<Longrightarrow> transaction None callback s = (result, s', [TxBegin] @ evs @ [TxCommit])"
  by (simp add: transaction_def)

lemma transaction_commit_fails:
  "callback s = (Resolved result, s', evs)
   \<Longrightarrow> transaction (Some e) callback s = (Inl e, s, [TxBegin] @ evs @ [TxRollback])"
  by (simp add: transaction_def)

lemma transaction_Rejected:
  "callback s = (Rejected e, s', evs)
   \<Longrightarrow> transaction commit callback s = (Inl e, s, [TxBegin] @ evs @ [TxRollback])"
  by (simp add: transaction_def)

text \<open>The outcomes of a transaction. It succeeds only when the callback resolves with a
  success and the commit succeeds. When it fails, the store is the one before the call
  unless the callback, having resolved with a failure, left it otherwise before a commit
  that succeeded; the events are those of the callback between the opening and the
  commit or the rollback.\<close>

lemma transaction_Inr:
  assumes "transaction commit callback s = (Inr r, s', history)"
  obtains evs where "callback s = (Resolved (Inr r), s', evs)" and "commit = None"
    and "history = [TxBegin] @ evs @ [TxCommit]"
proof -
  obtain c s1 evs where cb: "callback s = (c, s1, evs)"
    by (cases "callback s") auto
  with assms have "c = Resolved (Inr r) \<and> s1 = s' \<and> commit = None
      \<and> history = [TxBegin] @ evs @ [TxCommit]"
    by (cases c; cases commit) (auto simp: transaction_def)
  with cb show thesis by (intro that [of evs]) simp_all
qed

lemma transaction_Inl:
  assumes "transaction commit callback s = (Inl e, s', history)"
  obtains (failed) s1 evs where "callback s = (Resolved (Inl e), s1, evs)" and "commit = None"
      and "s' = s1" and "history = [TxBegin] @ evs @ [TxCommit]"
    | (rejected) s1 evs where "callback s = (Rejected e, s1, evs)"
      and "s' = s" and "history = [TxBegin] @ evs @ [TxRollback]"
    | (uncommitted) r s1 evs where "callback s = (Resolved r, s1, evs)" and "commit = Some e"
      and "s' = s" and "history = [TxBegin] @ evs @ [TxRollback]"
proof -
  obtain c s1 evs where cb: "callback s = (c, s1, evs)"
    by (cases "callback s") auto
  show thesis
  proof (cases c)
    case (Resolved r)
    show thesis
    proof (cases commit)
      case None
      with assms cb Resolved show thesis
        by (intro failed [of s1 evs]) (auto simp: transaction_def)
    next
      case (Some x)
      with assms cb Resolved show thesis
        by (intro uncommitted [of r s1 evs]) (auto simp: transaction_def)
    qed
  next
    case (Rejected x)
    with assms cb show thesis
      by (intro rejected [of s1 evs]) (auto simp: transaction_def)
  qed
qed

section \<open>createTask\<close>

text \<open>The outcomes of the callback of \<open>createTask\<close>: it resolves with a success after the
  writes and one notification, resolves with the failure of \<open>Task.create\<close> before any
  write, or rejects without notification.\<close>

lemma createTask_callback_success:
  assumes "createTask_callback E input creatorUuid s = (Resolved (Inr response), s', evs)"
  obtains task and saved :: task_row where
    "Task_create (env_uuid E) (env_entityNow E) (createTask_props E input creatorUuid) = Inr task"
    and "s' = s\<lparr> tbl_task := tbl_task s @ [taskRowOf task],
                tbl_task_raci := tbl_task_raci s
                   @ raciRows (tk_id saved) (env_trxNow E) (in_raci input),
                tbl_task_profile := tbl_task_profile s
                   @ profileRows (tk_id saved) (env_trxNow E)
                       (case in_profilesImpacted input of None \<Rightarrow> [] | Some cs \<Rightarrow> cs) \<rparr>"
    and "evs = [TaskCreated ((Task_toObject task)\<lparr>Task_id := tk_id saved\<rparr>)]"
    and "twr_task (response_task response) = Task_toObject task"
    and "saved \<in> set (tbl_task s @ [taskRowOf task])"
proof -
  obtain task where task:
    "Task_create (env_uuid E) (env_entityNow E) (createTask_props E input creatorUuid) = Inr task"
    using assms by (cases "Task_create (env_uuid E) (env_entityNow E)
        (createTask_props E input creatorUuid)") (auto simp: createTask_callback_def)
  obtain s1 where s1: "insert_task (taskRowOf task) s = Inr s1"
    using assms task by (cases "insert_task (taskRowOf task) s")
      (auto simp: createTask_callback_def)
  obtain saved where saved: "savedTaskRecord task s1 = Some saved"
    using assms task s1 by (cases "savedTaskRecord task s1")
      (auto simp: createTask_callback_def)
  obtain s2 where s2: "insertEach insert_task_raci
      (raciRows (tk_id saved) (env_trxNow E) (in_raci input)) s1 = Inr s2"
    using assms task s1 saved
    by (cases "insertEach insert_task_raci
        (raciRows (tk_id saved) (env_trxNow E) (in_raci input)) s1")
      (auto simp: createTask_callback_def)
  obtain s3 where s3: "insertEach insert_task_profile
      (profileRows (tk_id saved) (env_trxNow E)
         (case in_profilesImpacted input of None \<Rightarrow> [] | Some cs \<Rightarrow> cs)) s2 = Inr s3"
    using assms task s1 saved s2
    by (cases "insertEach insert_task_profile
        (profileRows (tk_id saved) (env_trxNow E)
           (case in_profilesImpacted input of None \<Rightarrow> [] | Some cs \<Rightarrow> cs)) s2")
      (auto simp: createTask_callback_def)
  have store: "s3 = s\<lparr> tbl_task := tbl_task s @ [taskRowOf task],
                tbl_task_raci := tbl_task_raci s
                   @ raciRows (tk_id saved) (env_trxNow E) (in_raci input),
                tbl_task_profile := tbl_task_profile s
                   @ profileRows (tk_id saved) (env_trxNow E)
                       (case in_profilesImpacted input of None \<Rightarrow> [] | Some cs \<Rightarrow> cs) \<rparr>"
    by (simp add: insertEach_task_profile [OF s3] insertEach_task_raci [OF s2]
        insert_task_Inr [OF s1])
  have final: "s' = s3 \<and> evs = [TaskCreated ((Task_toObject task)\<lparr>Task_id := tk_id saved\<rparr>)]
        \<and> twr_task (response_task response) = Task_toObject task"
    using assms task s1 saved s2 s3 by (auto simp: createTask_callback_def Let_def)
  have member: "saved \<in> set (tbl_task s @ [taskRowOf task])"
    using saved first_orderByDesc_mem [of tk_created_at _ "tbl_task s1" saved]
    by (simp add: savedTaskRecord_def insert_task_Inr [OF s1])
  show thesis
    by (rule that [of task saved]) (use task final store member in simp_all)
qed



text \<open>
  Claim C3. When, in \<open>createTask\<close>, the insertion of the RACI rows fails after the task row
  was inserted (the first rows of the loop may already be in the table), the call returns
  the failure, the store is the one before the call, so that no task row, RACI row or
  profile association of the call is kept, and the log holds the opening and the rollback
  of the transaction only: no notification of a created task.
\<close>

theorem createTask_raci_failure_rolls_back:
  assumes "firstMissingProfile P s
             (case in_profilesImpacted input of None \<Rightarrow> [] | Some cs \<Rightarrow> cs) = None"
    and "Task_create (env_uuid E) (env_entityNow E) (createTask_props E input creatorUuid)
           = Inr task"
    and "insert_task (taskRowOf task) s = Inr s1"
    and "savedTaskRecord task s1 = Some saved"
    and "insertEach insert_task_raci
           (raciRows (tk_id saved) (env_trxNow E) (in_raci input)) s1 = Inl e"
  shows "createTask P E input creatorUuid s = (Inl e, s, [TxBegin, TxRollback])"
  using assms by (simp add: createTask_def createTask_callback_def transaction_def)

lemma createTask_success:
  assumes "createTask P E input creatorUuid s = (Inr response, s', history)"
  obtains task and saved :: task_row where
    "Task_create (env_uuid E) (env_entityNow E) (createTask_props E input creatorUuid) = Inr task"
    and "s' = s\<lparr> tbl_task := tbl_task s @ [taskRowOf task],
                tbl_task_raci := tbl_task_raci s
                   @ raciRows (tk_id saved) (env_trxNow E) (in_raci input),
                tbl_task_profile := tbl_task_profile s
                   @ profileRows (tk_id saved) (env_trxNow E)
                       (case in_profilesImpacted input of None \<Rightarrow> [] | Some cs \<Rightarrow> cs) \<rparr>"
    and "history = [TxBegin, TaskCreated ((Task_toObject task)\<lparr>Task_id := tk_id saved\<rparr>), TxCommit]"
    and "twr_task (response_task response) = Task_toObject task"
    and "saved \<in> set (tbl_task s @ [taskRowOf task])"
    and "env_commit E = None"
proof -
  from assms have "transaction (env_commit E) (createTask_callback E input creatorUuid) s
      = (Inr response, s', history)"
    by (auto simp: createTask_def split: option.splits)
  then show thesis
  proof (rule transaction_Inr)
    fix evs
    assume cb: "createTask_callback E input creatorUuid s = (Resolved (Inr response), s', evs)"
      and commit: "env_commit E = None"
      and history: "history = [TxBegin] @ evs @ [TxCommit]"
    from cb show thesis
    proof (rule createTask_callback_success)
      fix task and saved :: task_row
      assume "Task_create (env_uuid E) (env_entityNow E) (createTask_props E input creatorUuid)
          = Inr task"
        and "s' = s\<lparr> tbl_task := tbl_task s @ [taskRowOf task],
                tbl_task_raci := tbl_task_raci s
                   @ raciRows (tk_id saved) (env_trxNow E) (in_raci input),
                tbl_task_profile := tbl_task_profile s
                   @ profileRows (tk_id saved) (env_trxNow E)
                       (case in_profilesImpacted input of None \<Rightarrow> [] | Some cs \<Rightarrow> cs) \<rparr>"
        and "evs = [TaskCreated ((Task_toObject task)\<lparr>Task_id := tk_id saved\<rparr>)]"
        and "twr_task (response_task response) = Task_toObject task"
        and "saved \<in> set (tbl_task s @ [taskRowOf task])"
      with history commit show thesis
        by (intro that [of task saved]) simp_all
    qed
  qed
qed


lemma isBlank_Build: "\<not> isBlank ''Build''"
  by (simp add: isBlank_def trim_def isWhiteSpace_def)

lemma Task_create_exCreateInput:
  "Task_create (env_uuid exEnv) (env_entityNow exEnv)
     (createTask_props exEnv (exCreateInput accountable) exUser) = Inr exCreatedTask"
  by (simp add: Task_create_def new_Task_def createTask_props_def exCreateInput_def
      exCreatedTask_def isBlank_Build nonempty_examples datesOutOfOrder_def truthy_def
      new_PhaseCode_D new_Priority_2 new_UUID_valid UUID_isValid_examples)
    (simp add: exEnv_def)

lemma firstMissingProfile_exStore:
  "firstMissingProfile (knexPorts E) (exStore letter) [''TEC''] = None"
  by (simp add: firstMissingProfile_def knexPorts_def ProfileKnexRepository_findByCode_def
      exStore_def first_def Profile_create_def isBlank_def trim_def isWhiteSpace_def)

lemma orderByDesc_single [simp]: "orderByDesc column [r] = [r]"
  by (simp add: orderByDesc_def)

lemma insert_task_exCreatedTask:
  "insert_task (taskRowOf exCreatedTask) (exStore letter)
     = Inr ((exStore letter)\<lparr>tbl_task := [exTaskRow, taskRowOf exCreatedTask]\<rparr>)"
  by (simp add: insert_task_def invalidDate_def taskRowOf_def exCreatedTask_def exStore_def
      exTaskRow_def distinct_examples)

lemma savedTaskRecord_exCreatedTask:
  "savedTaskRecord exCreatedTask
     ((exStore letter)\<lparr>tbl_task := [exTaskRow, taskRowOf exCreatedTask]\<rparr>)
     = Some (taskRowOf exCreatedTask)"
  by (simp add: savedTaskRecord_def taskRowOf_def exCreatedTask_def exTaskRow_def first_def)

lemma raciRows_duplicate_user_rejected:
  "insertEach insert_task_raci
     (raciRows (tk_id (taskRowOf exCreatedTask)) (env_trxNow exEnv)
        (in_raci (exCreateInput (Some [exUser]))))
     ((exStore letter)\<lparr>tbl_task := [exTaskRow, taskRowOf exCreatedTask]\<rparr>)
     = Inl (DuplicateKey ''task_raci'')"
  by (simp add: raciRows_def usersOf_def exCreateInput_def insert_task_raci_def sameRaciKey_def
      exStore_def exRaciRow_def taskRowOf_def exCreatedTask_def distinct_examples)

theorem createTask_raci_failure_rolls_back_witness:
  "createTask (knexPorts exEnv) exEnv (exCreateInput (Some [exUser])) exUser (exStore Letter_C)
     = (Inl (DuplicateKey ''task_raci''), exStore Letter_C, [TxBegin, TxRollback])"
proof -
  have profiles: "firstMissingProfile (knexPorts exEnv) (exStore Letter_C)
      (case in_profilesImpacted (exCreateInput (Some [exUser])) of None \<Rightarrow> [] | Some cs \<Rightarrow> cs)
      = None"
    by (simp add: exCreateInput_def firstMissingProfile_exStore)
  show ?thesis
    by (rule createTask_raci_failure_rolls_back [OF profiles Task_create_exCreateInput
          insert_task_exCreatedTask savedTaskRecord_exCreatedTask
          raciRows_duplicate_user_rejected])
qed

section \<open>updateTask\<close>

lemma applyTitle_progress:
  "applyTitle now input task = Inr task' \<Longrightarrow> Task_progress task' = Task_progress task"
  by (auto simp: applyTitle_def applySetter_def updateTitle_def split: option.splits if_splits)

lemma applyDescription_progress:
  "applyDescription now input task = Inr task' \<Longrightarrow> Task_progress task' = Task_progress task"
  by (auto simp: applyDescription_def applySetter_def updateDescription_def split: option.splits)

lemma applyPriority_progress:
  "applyPriority now input task = Inr task' \<Longrightarrow> Task_progress task' = Task_progress task"
  by (auto simp: applyPriority_def applySetter_def updatePriority_def
      split: option.splits sum.splits)

lemma applyPhase_progress:
  "applyPhase P s now taskId userUuid userRole input task = Inr task'
   \<Longrightarrow> Task_progress task' = Task_progress task"
  by (auto simp: applyPhase_def applySetter_def updatePhase_def
      split: option.splits sum.splits if_splits)

lemma applyOwner_progress:
  "applyOwner now input task = Inr task' \<Longrightarrow> Task_progress task' = Task_progress task"
  by (auto simp: applyOwner_def applySetter_def updateOwner_def
      split: option.splits sum.splits)

lemma applyPlannedDates_progress:
  "applyPlannedDates now input task = Inr task' \<Longrightarrow> Task_progress task' = Task_progress task"
  by (auto simp: applyPlannedDates_def applySetter_def updatePlannedDates_def
      split: if_splits)

lemma applyUpdates_progress:
  assumes "applyUpdates P s now taskId userUuid userRole input task = Inr task'"
  shows "Task_progress task' = Task_progress task"
proof -
  from assms obtain t1 t2 t3 t4 t5 where
    "applyTitle now input task = Inr t1"
    "applyDescription now input t1 = Inr t2"
    "applyPriority now input t2 = Inr t3"
    "applyPhase P s now taskId userUuid userRole input t3 = Inr t4"
    "applyOwner now input t4 = Inr t5"
    "applyPlannedDates now input t5 = Inr task'"
    by (auto simp: applyUpdates_def split: sum.splits)
  then show ?thesis
    using applyTitle_progress applyDescription_progress applyPriority_progress
      applyPhase_progress applyOwner_progress applyPlannedDates_progress
    by metis
qed

lemma updateTask_callback_resolved:
  assumes "updateTask_callback E taskId input task s = (Resolved r, s', evs)"
  shows "(\<exists>response. r = Inr response
            \<and> twr_task (response_task response) = Task_toObject task)
       \<and> tbl_task s' = updateTaskRow taskId task (env_trxNow E) (tbl_task s)
       \<and> evs = [TaskUpdated (Task_toObject task)]"
  using assms
  by (auto simp: updateTask_callback_def updateTaskStatement_def Let_def
      split: sum.splits option.splits if_splits
      dest!: insertEach_task_raci insertEach_task_profile)

lemma updateTask_callback_rejected:
  assumes "updateTask_callback E taskId input task s = (Rejected e, s', evs)"
  shows "evs = []"
  using assms
  by (auto simp: updateTask_callback_def updateTaskStatement_def Let_def
      split: sum.splits option.splits if_splits)

text \<open>Before its transaction, \<open>updateTask\<close> either fails without touching the store, or
  reaches the transaction with the loaded task as the setters left it.\<close>

lemma updateTask_cases:
  obtains (refused) e where
      "updateTask P E taskId input userUuid userRole s = (Inl e, s, [])"
  | (transacted) task task' where
      "taskRepository_findById P s taskId = Inr task"
      "applyUpdates P s (env_entityNow E) taskId userUuid userRole input task = Inr task'"
      "updateTask P E taskId input userUuid userRole s
         = transaction (env_commit E) (updateTask_callback E taskId input task') s"
proof (cases "taskRepository_findById P s taskId")
  case (Inl e)
  then show thesis by (intro refused [of e]) (simp add: updateTask_def)
next
  case task: (Inr task)
  show thesis
  proof (cases "canModifyTask P s taskId userUuid userRole")
    case (Inl e)
    with task show thesis by (intro refused [of e]) (simp add: updateTask_def)
  next
    case allowed: (Inr allowed)
    show thesis
    proof (cases allowed)
      case False
      with task allowed show thesis
        by (intro refused [of "ForbiddenModify userRole taskId"]) (simp add: updateTask_def)
    next
      case True
      show thesis
      proof (cases "applyUpdates P s (env_entityNow E) taskId userUuid userRole input task")
        case (Inl e)
        with task allowed True show thesis
          by (intro refused [of e]) (simp add: updateTask_def)
      next
        case (Inr task')
        with task allowed True show thesis
          by (intro transacted [of task task']) (simp_all add: updateTask_def)
      qed
    qed
  qed
qed

lemma updateTask_success:
  assumes "updateTask P E taskId input userUuid userRole s = (Inr response, s', history)"
  obtains task task' where
    "taskRepository_findById P s taskId = Inr task"
    and "applyUpdates P s (env_entityNow E) taskId userUuid userRole input task = Inr task'"
    and "tbl_task s' = updateTaskRow taskId task' (env_trxNow E) (tbl_task s)"
    and "history = [TxBegin, TaskUpdated (Task_toObject task'), TxCommit]"
    and "twr_task (response_task response) = Task_toObject task'"
    and "env_commit E = None"
proof (cases rule: updateTask_cases [of P E taskId input userUuid userRole s])
  case (refused e)
  with assms show thesis by simp
next
  case (transacted task task')
  with assms have "transaction (env_commit E) (updateTask_callback E taskId input task') s
      = (Inr response, s', history)"
    by simp
  then show thesis
  proof (rule transaction_Inr)
    fix evs
    assume cb: "updateTask_callback E taskId input task' s = (Resolved (Inr response), s', evs)"
      and commit: "env_commit E = None"
      and history: "history = [TxBegin] @ evs @ [TxCommit]"
    from updateTask_callback_resolved [OF cb] history
    have "tbl_task s' = updateTaskRow taskId task' (env_trxNow E) (tbl_task s)"
      and "history = [TxBegin, TaskUpdated (Task_toObject task'), TxCommit]"
      and "twr_task (response_task response) = Task_toObject task'"
      by simp_all
    with transacted commit show thesis by (intro that [of task task']) simp_all
  qed
qed

text \<open>A failed \<open>updateTask\<close> leaves the store as it was. It has emitted no notification,
  unless the failure is that of the commit.\<close>

lemma updateTask_failure:
  assumes "updateTask P E taskId input userUuid userRole s = (Inl e, s', history)"
  shows "s' = s \<and> (list_ex isNotification history \<longrightarrow> env_commit E = Some e)"
proof (cases rule: updateTask_cases [of P E taskId input userUuid userRole s])
  case (refused e')
  with assms show ?thesis by simp
next
  case (transacted task task')
  with assms have "transaction (env_commit E) (updateTask_callback E taskId input task') s
      = (Inl e, s', history)"
    by simp
  then show ?thesis
  proof (cases rule: transaction_Inl)
    case (failed s1 evs)
    with updateTask_callback_resolved [OF failed(1)] show ?thesis by simp
  next
    case (rejected s1 evs)
    from updateTask_callback_rejected [OF rejected(1)] rejected show ?thesis
      by (simp add: isNotification_def)
  next
    case (uncommitted r s1 evs)
    then show ?thesis by simp
  qed
qed

lemma new_Task_progress:
  "new_Task gen now props = Inr task \<Longrightarrow> Task_progress task = props_progress props"
  by (auto simp: new_Task_def split: sum.splits)

lemma Task_create_progress:
  "Task_create gen now props = Inr task \<Longrightarrow> Task_progress task = props_progress props"
  by (auto simp: Task_create_def split: if_splits dest: new_Task_progress)

lemma Task_toDomain_progress:
  "Task_toDomain gen now stored = Inr task \<Longrightarrow> Task_progress task = tk_progress stored"
  by (auto simp: Task_toDomain_def dest: Task_create_progress)

lemma TaskKnexRepository_findById_progress:
  assumes "TaskKnexRepository_findById gen now s taskId = Inr task"
  obtains stored where "first (filter (\<lambda>r. tk_id r = taskId) (tbl_task s)) = Some stored"
    and "Task_progress task = tk_progress stored"
  using assms
  by (auto simp: TaskKnexRepository_findById_def split: option.splits
      dest: Task_toDomain_progress)

lemma first_Some_mem: "first (filter p rows) = Some r \<Longrightarrow> r \<in> set rows \<and> p r"
proof -
  assume "first (filter p rows) = Some r"
  then have "r \<in> set (filter p rows)"
    by (cases "filter p rows") (auto simp: first_def)
  then show ?thesis by simp
qed

lemma updateTaskRow_progress:
  assumes "distinct (map tk_id rows)"
    and "first (filter (\<lambda>r. tk_id r = taskId) rows) = Some stored"
    and "Task_progress task = tk_progress stored"
  shows "map tk_progress (updateTaskRow taskId task now rows) = map tk_progress rows"
proof -
  from first_Some_mem [OF assms(2)] have mem: "stored \<in> set rows" and key: "tk_id stored = taskId"
    by simp_all
  have "tk_progress r = Task_progress task" if "r \<in> set rows" "tk_id r = taskId" for r
  proof -
    from assms(1) have "inj_on tk_id (set rows)" by (simp add: distinct_map)
    with that mem key have "r = stored" by (auto dest: inj_onD)
    with assms(3) show ?thesis by simp
  qed
  then show ?thesis by (auto simp: updateTaskRow_def)
qed

text \<open>
  Claim C9. A client cannot set the progress of a task. A task that \<open>createTask\<close> persists
  is the one row appended to the table, with progress 0, whatever the input (which has no
  progress field), and the response shows progress 0. \<open>updateTask\<close>, whose input has no
  progress field either, leaves the progress of every stored task as it was, whatever
  fields are supplied and whether it succeeds or fails; this is stated for the Knex task
  repository and a table whose identifiers are unique, as its primary key makes them.
\<close>

theorem progress_not_client_settable:
  "(createTask P E input creatorUuid s = (Inr response, s', history)
      \<longrightarrow> (\<exists>row :: task_row. tbl_task s' = tbl_task s @ [row] \<and> tk_progress row = Num 0)
          \<and> Task_progress (twr_task (response_task response)) = Num 0)
   \<and> (taskRepository_findById P = TaskKnexRepository_findById gen now
       \<and> distinct (map tk_id (tbl_task s))
       \<and> updateTask P E taskId update userUuid userRole s = (result, s'', history')
      \<longrightarrow> map tk_progress (tbl_task s'') = map tk_progress (tbl_task s))"
proof (rule conjI; rule impI)
  assume created: "createTask P E input creatorUuid s = (Inr response, s', history)"
  show "(\<exists>row :: task_row. tbl_task s' = tbl_task s @ [row] \<and> tk_progress row = Num 0)
          \<and> Task_progress (twr_task (response_task response)) = Num 0"
  proof (rule createTask_success [OF created])
    fix task and saved :: task_row
    assume task: "Task_create (env_uuid E) (env_entityNow E)
                    (createTask_props E input creatorUuid) = Inr task"
      and s': "s' = s\<lparr> tbl_task := tbl_task s @ [taskRowOf task],
                tbl_task_raci := tbl_task_raci s
                   @ raciRows (tk_id saved) (env_trxNow E) (in_raci input),
                tbl_task_profile := tbl_task_profile s
                   @ profileRows (tk_id saved) (env_trxNow E)
                       (case in_profilesImpacted input of None \<Rightarrow> [] | Some cs \<Rightarrow> cs) \<rparr>"
      and dto: "twr_task (response_task response) = Task_toObject task"
    from Task_create_progress [OF task] have zero: "Task_progress task = Num 0"
      by (simp add: createTask_props_def)
    have "tbl_task s' = tbl_task s @ [taskRowOf task]"
      by (simp add: s')
    moreover have "tk_progress (taskRowOf task) = Num 0"
      by (simp add: taskRowOf_def zero)
    moreover have "Task_progress (twr_task (response_task response)) = Num 0"
      by (simp add: dto Task_toObject_def zero)
    ultimately show ?thesis by blast
  qed
next
  assume "taskRepository_findById P = TaskKnexRepository_findById gen now
       \<and> distinct (map tk_id (tbl_task s))
       \<and> updateTask P E taskId update userUuid userRole s = (result, s'', history')"
  then have knex: "taskRepository_findById P = TaskKnexRepository_findById gen now"
    and unique: "distinct (map tk_id (tbl_task s))"
    and updated: "updateTask P E taskId update userUuid userRole s = (result, s'', history')"
    by simp_all
  show "map tk_progress (tbl_task s'') = map tk_progress (tbl_task s)"
  proof (cases result)
    case (Inl e)
    with updateTask_failure [of P E taskId update userUuid userRole s e s'' history'] updated
    show ?thesis by simp
  next
    case (Inr response)
    with updated
    have success: "updateTask P E taskId update userUuid userRole s = (Inr response, s'', history')"
      by simp
    show ?thesis
    proof (rule updateTask_success [OF success])
      fix task task'
      assume found: "taskRepository_findById P s taskId = Inr task"
        and applied: "applyUpdates P s (env_entityNow E) taskId userUuid userRole update task
                        = Inr task'"
        and rows: "tbl_task s'' = updateTaskRow taskId task' (env_trxNow E) (tbl_task s)"
      from found knex have "TaskKnexRepository_findById gen now s taskId = Inr task"
        by simp
      then show ?thesis
      proof (rule TaskKnexRepository_findById_progress)
        fix stored
        assume "first (filter (\<lambda>r. tk_id r = taskId) (tbl_task s)) = Some stored"
          and "Task_progress task = tk_progress stored"
        with applyUpdates_progress [OF applied] unique rows show ?thesis
          by (simp add: updateTaskRow_progress)
      qed
    qed
  qed
qed

lemma createTask_exCreateInput:
  "createTask (knexPorts exEnv) exEnv (exCreateInput None) exUser (exStore Letter_C)
     = (Inr \<lparr> response_task =
                \<lparr> twr_task = exCreatedTask,
                  twr_raci = \<lparr> map_R = [exUser], map_A = [], map_C = [], map_I = [] \<rparr>,
                  twr_subtasks = [], twr_profilesImpacted = [''TEC''] \<rparr>,
              response_message = TaskCreatedMessage \<rparr>,
        (exStore Letter_C)
          \<lparr> tbl_task := [exTaskRow, taskRowOf exCreatedTask],
            tbl_task_raci :=
              [exRaciRow Letter_C,
               \<lparr> rr_entity_id = env_uuid exEnv, rr_user_uuid = exUser, rr_letter = Letter_R,
                 rr_created_at = Some 1001, rr_updated_at = Some 1001 \<rparr>],
            tbl_task_profile :=
              [\<lparr> tp_task_id = env_uuid exEnv, tp_profile_code = ''TEC'',
                 tp_created_at = 1001 \<rparr>] \<rparr>,
        [TxBegin, TaskCreated exCreatedTask, TxCommit])"
proof -
  have profiles: "in_profilesImpacted (exCreateInput None) = Some [''TEC'']"
    by (simp add: exCreateInput_def)
  have saved_id: "tk_id (taskRowOf exCreatedTask) = env_uuid exEnv"
    by (simp add: taskRowOf_def exCreatedTask_def)
  have raci: "raciRows (env_uuid exEnv) (env_trxNow exEnv) (in_raci (exCreateInput None))
      = [\<lparr> rr_entity_id = env_uuid exEnv, rr_user_uuid = exUser, rr_letter = Letter_R,
            rr_created_at = Some 1001, rr_updated_at = Some 1001 \<rparr>]"
    by (simp add: raciRows_def usersOf_def exCreateInput_def exEnv_def)
  have callback: "createTask_callback exEnv (exCreateInput None) exUser (exStore Letter_C)
     = (Resolved (Inr \<lparr> response_task =
                \<lparr> twr_task = exCreatedTask,
                  twr_raci = \<lparr> map_R = [exUser], map_A = [], map_C = [], map_I = [] \<rparr>,
                  twr_subtasks = [], twr_profilesImpacted = [''TEC''] \<rparr>,
              response_message = TaskCreatedMessage \<rparr>),
        (exStore Letter_C)
          \<lparr> tbl_task := [exTaskRow, taskRowOf exCreatedTask],
            tbl_task_raci :=
              [exRaciRow Letter_C,
               \<lparr> rr_entity_id = env_uuid exEnv, rr_user_uuid = exUser, rr_letter = Letter_R,
                 rr_created_at = Some 1001, rr_updated_at = Some 1001 \<rparr>],
            tbl_task_profile :=
              [\<lparr> tp_task_id = env_uuid exEnv, tp_profile_code = ''TEC'',
                 tp_created_at = 1001 \<rparr>] \<rparr>,
        [TaskCreated exCreatedTask])"
    by (simp add: createTask_callback_def Task_create_exCreateInput insert_task_exCreatedTask
        savedTaskRecord_exCreatedTask profiles saved_id raci insert_task_raci_def
        sameRaciKey_def insert_task_profile_def profileRows_def raciMapOf_def
        Task_toObject_def Let_def)
      (simp add: exStore_def exRaciRow_def exEnv_def exCreatedTask_def exTaskId_def
        exCreateInput_def sameRaciKey_def Let_def)
  show ?thesis
    by (simp add: createTask_def profiles firstMissingProfile_exStore transaction_def callback)
      (simp add: exEnv_def)
qed

lemma findById_exStoreProgress:
  "taskRepository_findById (knexPorts exEnv) (exStoreProgress (Num 40)) exTaskId
     = Inr (exTask\<lparr>Task_progress := Num 40\<rparr>)"
  by (simp add: knexPorts_def TaskKnexRepository_findById_def exStoreProgress_def first_def
      Task_toDomain_def Task_create_def new_Task_def exTaskRow_def exTask_def
      isBlank_Design nonempty_examples datesOutOfOrder_def truthy_def new_PhaseCode_D
      new_Priority_2 new_UUID_valid UUID_isValid_examples)

lemma applyUpdates_exUpdateInput:
  "applyUpdates (knexPorts exEnv) (exStoreProgress (Num 40)) 1000 exTaskId exUser ''CP''
     exUpdateInput (exTask\<lparr>Task_progress := Num 40\<rparr>)
     = Inr (exTask\<lparr>Task_progress := Num 40, Task_title := ''Design v2'', Task_priority := Num 5,
                  Task_updatedAt := 1000\<rparr>)"
  by (simp add: applyUpdates_def applyTitle_def applyDescription_def applyPriority_def
      applyPhase_def applyOwner_def applyPlannedDates_def applySetter_def exUpdateInput_def
      updateTitle_def updatePriority_def new_Priority_def Priority_isValid_def ge_def
      Number_isInteger_def isBlank_def trim_def isWhiteSpace_def exTask_def)

lemma updateTask_exUpdateInput:
  "\<exists>response.
     updateTask (knexPorts exEnv) exEnv exTaskId exUpdateInput exUser ''CP'' (exStoreProgress (Num 40))
       = (Inr response,
          (exStore Letter_C)
            \<lparr>tbl_task := [exTaskRow\<lparr>tk_progress := Num 40, tk_title := ''Design v2'',
                                     tk_priority := Num 5, tk_updated_at := 1001\<rparr>]\<rparr>,
          [TxBegin,
           TaskUpdated (exTask\<lparr>Task_progress := Num 40, Task_title := ''Design v2'',
                                Task_priority := Num 5, Task_updatedAt := 1000\<rparr>),
           TxCommit])"
proof -
  have now: "env_entityNow exEnv = 1000" "env_trxNow exEnv = 1001"
    by (simp_all add: exEnv_def)
  have allowed: "canModifyTask (knexPorts exEnv) (exStoreProgress (Num 40)) exTaskId exUser ''CP''
      = Inr True"
    by (simp add: canModifyTask_def isElevated_def)
  show ?thesis
    by (simp add: updateTask_def findById_exStoreProgress allowed now
        applyUpdates_exUpdateInput transaction_def updateTask_callback_def
        updateTaskStatement_def invalidDate_def Let_def Task_toObject_def)
      (simp add: updateTaskRow_def written_def exStoreProgress_def exStore_def exTaskRow_def
        exTask_def exUpdateInput_def exEnv_def Task_toObject_def)
qed

theorem progress_not_client_settable_witness:
  "map tk_progress
     (tbl_task (fst (snd (createTask (knexPorts exEnv) exEnv (exCreateInput None) exUser
                            (exStore Letter_C))))) = [Num 0, Num 0]
   \<and> map tk_title
       (tbl_task (fst (snd (updateTask (knexPorts exEnv) exEnv exTaskId exUpdateInput exUser
                              ''CP'' (exStoreProgress (Num 40)))))) = [''Design v2'']
   \<and> map tk_progress
       (tbl_task (fst (snd (updateTask (knexPorts exEnv) exEnv exTaskId exUpdateInput exUser
                              ''CP'' (exStoreProgress (Num 40)))))) = [Num 40]"
proof -
  have knex: "taskRepository_findById (knexPorts exEnv)
      = TaskKnexRepository_findById (env_uuid exEnv) (env_entityNow exEnv)"
    by (simp add: knexPorts_def)
  have unique: "distinct (map tk_id (tbl_task (exStoreProgress (Num 40))))"
    by (simp add: exStoreProgress_def)
  have before: "map tk_progress (tbl_task (exStoreProgress (Num 40))) = [Num 40]"
    "map tk_progress (tbl_task (exStore Letter_C)) = [Num 0]"
    by (simp_all add: exStoreProgress_def exStore_def exTaskRow_def)
  note created = createTask_exCreateInput
  obtain response where updated:
    "updateTask (knexPorts exEnv) exEnv exTaskId exUpdateInput exUser ''CP'' (exStoreProgress (Num 40))
       = (Inr response,
          (exStore Letter_C)
            \<lparr>tbl_task := [exTaskRow\<lparr>tk_progress := Num 40, tk_title := ''Design v2'',
                                     tk_priority := Num 5, tk_updated_at := 1001\<rparr>]\<rparr>,
          [TxBegin,
           TaskUpdated (exTask\<lparr>Task_progress := Num 40, Task_title := ''Design v2'',
                                Task_priority := Num 5, Task_updatedAt := 1000\<rparr>),
           TxCommit])"
    using updateTask_exUpdateInput by (rule exE)
  from progress_not_client_settable [THEN conjunct1, rule_format, OF created]
  obtain row :: task_row where
    "tbl_task (fst (snd (createTask (knexPorts exEnv) exEnv (exCreateInput None) exUser
        (exStore Letter_C)))) = tbl_task (exStore Letter_C) @ [row]"
    and "tk_progress row = Num 0"
    by (auto simp: created)
  with before have first: "map tk_progress
     (tbl_task (fst (snd (createTask (knexPorts exEnv) exEnv (exCreateInput None) exUser
                            (exStore Letter_C))))) = [Num 0, Num 0]"
    by simp
  from progress_not_client_settable [THEN conjunct2, rule_format,
      OF conjI [OF knex conjI [OF unique updated]]] before
  have third: "map tk_progress
       (tbl_task (fst (snd (updateTask (knexPorts exEnv) exEnv exTaskId exUpdateInput exUser
                              ''CP'' (exStoreProgress (Num 40)))))) = [Num 40]"
    by (simp add: updated)
  have second: "map tk_title
       (tbl_task (fst (snd (updateTask (knexPorts exEnv) exEnv exTaskId exUpdateInput exUser
                              ''CP'' (exStoreProgress (Num 40)))))) = [''Design v2'']"
    by (simp add: updated)
  from first second third show ?thesis by blast
qed

section \<open>createSubTask\<close>

lemma createSubTask_callback_resolved:
  assumes "createSubTask_callback E taskId subtask s = (Resolved r, s', evs)"
  obtains response and saved :: subtask_row where
    "r = Inr response"
    and "savedSubtaskRecord subtask
           (s\<lparr>tbl_subtask := tbl_subtask s @
               [\<lparr> st_id = SubTask_id subtask, st_task_id = SubTask_taskId subtask,
                  st_title = SubTask_title subtask, st_description = None,
                  st_completed = SubTask_completed subtask,
                  st_created_by = SubTask_createdBy subtask,
                  st_created_at = env_trxNow E, st_updated_at = env_trxNow E \<rparr>]\<rparr>)
           = Some saved"
    and "SubTask_id (swr_subtask (response_subtask response)) = st_id saved"
    and "tbl_task_raci s' = tbl_task_raci s"
    and "tbl_subtask_raci s' = tbl_subtask_raci s
           @ subtaskRacisOf (st_id saved) (env_trxNow E)
               (filter (\<lambda>r. rr_entity_id r = taskId) (tbl_task_raci s))"
    and "evs = [SubTaskUpdated (swr_subtask (response_subtask response))]"
proof -
  let ?row = "\<lparr> st_id = SubTask_id subtask, st_task_id = SubTask_taskId subtask,
                  st_title = SubTask_title subtask, st_description = None,
                  st_completed = SubTask_completed subtask,
                  st_created_by = SubTask_createdBy subtask,
                  st_created_at = env_trxNow E, st_updated_at = env_trxNow E \<rparr>"
  obtain s1 where s1: "insert_subtask ?row s = Inr s1"
    using assms by (cases "insert_subtask ?row s") (auto simp: createSubTask_callback_def)
  note s1_eq = insert_subtask_Inr [OF s1]
  obtain saved where saved: "savedSubtaskRecord subtask s1 = Some saved"
    using assms s1 by (cases "savedSubtaskRecord subtask s1")
      (auto simp: createSubTask_callback_def)
  let ?taskRacis = "filter (\<lambda>r. rr_entity_id r = taskId) (tbl_task_raci s1)"
  let ?copies = "subtaskRacisOf (st_id saved) (env_trxNow E) ?taskRacis"
  obtain s2 where s2: "(if length ?taskRacis > 0
                        then insertEach insert_subtask_raci ?copies s1 else Inr s1) = Inr s2"
    using assms s1 saved
    by (cases "if length ?taskRacis > 0
               then insertEach insert_subtask_raci ?copies s1 else Inr s1")
      (auto simp: createSubTask_callback_def Let_def)
  have s2_eq: "s2 = s1\<lparr>tbl_subtask_raci := tbl_subtask_raci s1 @ ?copies\<rparr>"
  proof (cases "length ?taskRacis > 0")
    case True
    with s2 show ?thesis by (simp add: insertEach_subtask_raci)
  next
    case False
    with s2 show ?thesis by (simp add: subtaskRacisOf_def)
  qed
  let ?dto = "\<lparr> SubTask_id = st_id saved, SubTask_taskId = SubTask_taskId subtask,
                  SubTask_title = SubTask_title subtask, SubTask_description = None,
                  SubTask_completed = SubTask_completed subtask,
                  SubTask_createdBy = SubTask_createdBy subtask,
                  SubTask_createdAt = env_trxNow E, SubTask_updatedAt = env_trxNow E \<rparr>"
  let ?response = "\<lparr> response_subtask =
                       \<lparr> swr_subtask = ?dto,
                         swr_raci = raciMapOf rr_letter rr_user_uuid
                           (filter (\<lambda>r. rr_entity_id r = st_id saved) (tbl_subtask_raci s2)) \<rparr>,
                     response_submessage = SubTaskCreatedMessage \<rparr>"
  have "createSubTask_callback E taskId subtask s
          = (Resolved (Inr ?response), s2, [SubTaskUpdated ?dto])"
    using s1 saved s2 by (simp add: createSubTask_callback_def Let_def)
  with assms have final: "r = Inr ?response" "s' = s2" "evs = [SubTaskUpdated ?dto]"
    by auto
  show thesis
    by (rule that [of ?response saved]) (use final saved s1_eq s2_eq in simp_all)
qed


lemma createSubTask_cases:
  obtains (refused) e where
      "createSubTask P E taskId subtaskData userUuid userRole s = (Inl e, s, [])"
  | (transacted) subtask where
      "SubTask_create (env_uuid E) (env_entityNow E)
         (createSubTask_props taskId subtaskData userUuid) = Inr subtask"
      "createSubTask P E taskId subtaskData userUuid userRole s
         = transaction (env_commit E) (createSubTask_callback E taskId subtask) s"
proof (cases "taskRepository_findById P s taskId")
  case (Inl e)
  then show thesis by (intro refused [of "TaskNotFound taskId"]) (simp add: createSubTask_def)
next
  case task: (Inr task)
  show thesis
  proof (cases "canModifyTask P s taskId userUuid userRole")
    case (Inl e)
    with task show thesis by (intro refused [of e]) (simp add: createSubTask_def)
  next
    case allowed: (Inr allowed)
    show thesis
    proof (cases allowed)
      case False
      with task allowed show thesis
        by (intro refused [of "ForbiddenAddSubTask userRole taskId"])
          (simp add: createSubTask_def)
    next
      case True
      show thesis
      proof (cases "SubTask_create (env_uuid E) (env_entityNow E)
                      (createSubTask_props taskId subtaskData userUuid)")
        case (Inl e)
        with task allowed True show thesis
          by (intro refused [of e]) (simp add: createSubTask_def)
      next
        case (Inr subtask)
        with task allowed True show thesis
          by (intro transacted [of subtask]) (simp_all add: createSubTask_def)
      qed
    qed
  qed
qed



section \<open>The RACI rows of a new subtask\<close>

lemma isBlank_step1: "\<not> isBlank ''step1''"
  by (simp add: isBlank_def trim_def isWhiteSpace_def)

lemma SubTask_create_exSubTaskData:
  "SubTask_create (env_uuid exEnv) (env_entityNow exEnv)
     (createSubTask_props exTaskId exSubTaskData exUser) = Inr exNewSubTask"
  by (simp add: SubTask_create_def new_SubTask_def createSubTask_props_def exSubTaskData_def
      exNewSubTask_def isBlank_step1 nonempty_examples truthy_def new_UUID_valid
      UUID_isValid_examples)
    (simp add: exEnv_def)

lemma findById_exSubStore:
  "taskRepository_findById (knexPorts E) (exSubStore t) exTaskId = Inr exTask"
  by (simp add: knexPorts_def TaskKnexRepository_findById_def exSubStore_def exStore_def
      first_def Task_toDomain_exTaskRow) (simp add: exTaskRow_def)

lemma exOldSubId_not_new: "exOldSubId \<noteq> env_uuid exEnv" "env_uuid exEnv \<noteq> exOldSubId"
  "exOldSubId \<noteq> exTaskId"
  by (simp_all add: exOldSubId_def exEnv_def exTaskId_def)

lemma createSubTask_exSubStore_later_row:
  "createSubTask (knexPorts exEnv) exEnv exTaskId exSubTaskData exUser ''CP'' (exSubStore 5000)
     = (Inr \<lparr> response_subtask =
                \<lparr> swr_subtask = exNewSubTask\<lparr>SubTask_id := exOldSubId,
                                  SubTask_createdAt := 1001, SubTask_updatedAt := 1001\<rparr>,
                  swr_raci = \<lparr> map_R = [exUser], map_A = [], map_C = [], map_I = [exOther] \<rparr> \<rparr>,
              response_submessage = SubTaskCreatedMessage \<rparr>,
        (exStore Letter_R)
          \<lparr> tbl_subtask := [exOldSubtaskRow 5000, exNewSubtaskRow],
            tbl_subtask_raci :=
              [exOldSubtaskRaci,
               \<lparr> rr_entity_id = exOldSubId, rr_user_uuid = exUser, rr_letter = Letter_R,
                 rr_created_at = Some 1001, rr_updated_at = Some 1001 \<rparr>] \<rparr>,
        [TxBegin,
         SubTaskUpdated (exNewSubTask\<lparr>SubTask_id := exOldSubId, SubTask_createdAt := 1001,
                                     SubTask_updatedAt := 1001\<rparr>),
         TxCommit])"
proof -
  have allowed: "canModifyTask (knexPorts exEnv) (exSubStore 5000) exTaskId exUser ''CP''
      = Inr True"
    by (simp add: canModifyTask_def isElevated_def)
  have inserted: "insert_subtask exNewSubtaskRow (exSubStore 5000)
      = Inr ((exSubStore 5000)\<lparr>tbl_subtask := [exOldSubtaskRow 5000, exNewSubtaskRow]\<rparr>)"
    by (simp add: insert_subtask_def exSubStore_def exOldSubtaskRow_def exNewSubtaskRow_def
        exOldSubId_not_new)
  have saved: "savedSubtaskRecord exNewSubTask
      ((exSubStore 5000)\<lparr>tbl_subtask := [exOldSubtaskRow 5000, exNewSubtaskRow]\<rparr>)
      = Some (exOldSubtaskRow 5000)"
    by (simp add: savedSubtaskRecord_def orderByDesc_def first_def exNewSubTask_def
        exOldSubtaskRow_def exNewSubtaskRow_def)
  have callback: "createSubTask_callback exEnv exTaskId exNewSubTask (exSubStore 5000)
     = (Resolved (Inr \<lparr> response_subtask =
                \<lparr> swr_subtask = exNewSubTask\<lparr>SubTask_id := exOldSubId,
                                  SubTask_createdAt := 1001, SubTask_updatedAt := 1001\<rparr>,
                  swr_raci = \<lparr> map_R = [exUser], map_A = [], map_C = [], map_I = [exOther] \<rparr> \<rparr>,
              response_submessage = SubTaskCreatedMessage \<rparr>),
        (exStore Letter_R)
          \<lparr> tbl_subtask := [exOldSubtaskRow 5000, exNewSubtaskRow],
            tbl_subtask_raci :=
              [exOldSubtaskRaci,
               \<lparr> rr_entity_id = exOldSubId, rr_user_uuid = exUser, rr_letter = Letter_R,
                 rr_created_at = Some 1001, rr_updated_at = Some 1001 \<rparr>] \<rparr>,
        [SubTaskUpdated (exNewSubTask\<lparr>SubTask_id := exOldSubId, SubTask_createdAt := 1001,
                                     SubTask_updatedAt := 1001\<rparr>)])"
  proof -
    have row: "\<lparr> st_id = SubTask_id exNewSubTask, st_task_id = SubTask_taskId exNewSubTask,
               st_title = SubTask_title exNewSubTask, st_description = None,
               st_completed = SubTask_completed exNewSubTask,
               st_created_by = SubTask_createdBy exNewSubTask,
               st_created_at = env_trxNow exEnv, st_updated_at = env_trxNow exEnv \<rparr>
             = exNewSubtaskRow"
      by (simp add: exNewSubTask_def exNewSubtaskRow_def exEnv_def)
    show ?thesis
      unfolding createSubTask_callback_def Let_def row
      by (simp add: inserted saved)
        (simp add: exSubStore_def exStore_def exRaciRow_def exOldSubtaskRow_def
          exOldSubtaskRaci_def subtaskRacisOf_def insert_subtask_raci_def sameRaciKey_def
          raciMapOf_def exNewSubTask_def exEnv_def distinct_examples exOldSubId_not_new)
  qed
  show ?thesis
    by (simp add: createSubTask_def findById_exSubStore allowed SubTask_create_exSubTaskData
        transaction_def callback)
      (simp add: exEnv_def)
qed

text \<open>
  Claim C5 fails on the code at the following input. The parent task holds one RACI row,
  (\<open>exUser\<close>, R). The table of subtasks already holds a subtask of the same task with the
  same title and creator whose creation date (5000) is later than the clock that the
  transaction reads (1001). \<open>createSubTask\<close> succeeds and inserts the new subtask, but the
  row it reads back to learn the identifier is the older one, so the copy of the parent's
  row is attached to the older subtask: the new subtask has no RACI row, and the subtask
  named in the response has two, while the parent has one.
\<close>

theorem createSubTask_copies_to_read_back_row:
  "(\<exists>response.
      fst (createSubTask (knexPorts exEnv) exEnv exTaskId exSubTaskData exUser ''CP''
             (exSubStore 5000)) = Inr response
      \<and> SubTask_id (swr_subtask (response_subtask response)) = exOldSubId)
   \<and> map st_id (tbl_subtask (fst (snd (createSubTask (knexPorts exEnv) exEnv exTaskId
         exSubTaskData exUser ''CP'' (exSubStore 5000))))) = [exOldSubId, env_uuid exEnv]
   \<and> raciPairs exTaskId (tbl_task_raci (exSubStore 5000)) = [(exUser, Letter_R)]
   \<and> raciPairs (env_uuid exEnv)
        (tbl_subtask_raci (fst (snd (createSubTask (knexPorts exEnv) exEnv exTaskId
           exSubTaskData exUser ''CP'' (exSubStore 5000))))) = []
   \<and> raciPairs exOldSubId
        (tbl_subtask_raci (fst (snd (createSubTask (knexPorts exEnv) exEnv exTaskId
           exSubTaskData exUser ''CP'' (exSubStore 5000)))))
       = [(exOther, Letter_I), (exUser, Letter_R)]"
  unfolding createSubTask_exSubStore_later_row
  by (simp add: raciPairs_def exNewSubTask_def exOldSubtaskRow_def exNewSubtaskRow_def
      exOldSubtaskRaci_def exSubStore_def exStore_def exRaciRow_def exOldSubId_not_new)

text \<open>When the row read back is the inserted one, the copy is exact. This is the case when
  every earlier subtask of the task with the same title and creator was created before
  the clock reading of the transaction, and no RACI row refers to the new identifier.\<close>

lemma first_orderByDesc_latest:
  assumes "x \<in> set rows" and "\<forall>y \<in> set rows. y \<noteq> x \<longrightarrow> column y < column x"
  shows "first (orderByDesc column rows) = Some x"
proof -
  let ?f = "\<lambda>r. - int (column r)"
  let ?ys = "sort_key ?f rows"
  from assms(1) have "?ys \<noteq> []"
    by (metis empty_iff empty_set set_sort)
  then obtain z zs where ys: "?ys = z # zs" by (cases ?ys) auto
  have "sorted (map ?f ?ys)" by (rule sorted_sort_key)
  with ys have least: "\<forall>y \<in> set ?ys. ?f z \<le> ?f y" by auto
  have "x \<in> set ?ys" using assms(1) by simp
  with least have "?f z \<le> ?f x" by blast
  moreover have "z \<in> set rows"
  proof -
    have "z \<in> set ?ys" using ys by simp
    then show ?thesis by simp
  qed
  ultimately have "z = x" using assms(2) by fastforce
  with ys show ?thesis by (simp add: orderByDesc_def first_def)
qed

lemma new_SubTask_fields:
  assumes "SubTask_create gen now (createSubTask_props taskId subtaskData userUuid) = Inr subtask"
  shows "SubTask_id subtask = gen \<and> SubTask_taskId subtask = taskId
       \<and> SubTask_title subtask = sd_title subtaskData \<and> SubTask_createdBy subtask = userUuid"
  using assms
  by (auto simp: SubTask_create_def new_SubTask_def createSubTask_props_def truthy_def
      new_UUID_def split: if_splits sum.splits)

lemma createSubTask_copies_raci:
  assumes created:
      "createSubTask P E taskId subtaskData userUuid userRole s = (Inr response, s', history)"
    and earlier: "\<forall>r \<in> set (tbl_subtask s).
        st_title r = sd_title subtaskData \<and> st_task_id r = taskId \<and> st_created_by r = userUuid
        \<longrightarrow> st_created_at r < env_trxNow E"
    and fresh: "\<forall>r \<in> set (tbl_subtask_raci s). rr_entity_id r \<noteq> env_uuid E"
  shows "SubTask_id (swr_subtask (response_subtask response)) = env_uuid E
       \<and> raciPairs (env_uuid E) (tbl_subtask_raci s') = raciPairs taskId (tbl_task_raci s)
       \<and> tbl_task_raci s' = tbl_task_raci s"
proof (cases rule: createSubTask_cases [of P E taskId subtaskData userUuid userRole s])
  case (refused e)
  with created show ?thesis by simp
next
  case (transacted subtask)
  note fields = new_SubTask_fields [OF transacted(1)]
  let ?row = "\<lparr> st_id = SubTask_id subtask, st_task_id = SubTask_taskId subtask,
                  st_title = SubTask_title subtask, st_description = None,
                  st_completed = SubTask_completed subtask,
                  st_created_by = SubTask_createdBy subtask,
                  st_created_at = env_trxNow E, st_updated_at = env_trxNow E \<rparr>"
  let ?s1 = "s\<lparr>tbl_subtask := tbl_subtask s @ [?row]\<rparr>"
  let ?matches = "filter (\<lambda>r. st_title r = SubTask_title subtask
                           \<and> st_task_id r = SubTask_taskId subtask
                           \<and> st_created_by r = SubTask_createdBy subtask) (tbl_subtask ?s1)"
  have "first (orderByDesc st_created_at ?matches) = Some ?row"
  proof (rule first_orderByDesc_latest)
    show "?row \<in> set ?matches" by simp
    show "\<forall>y \<in> set ?matches. y \<noteq> ?row \<longrightarrow> st_created_at y < st_created_at ?row"
      using earlier fields by auto
  qed
  then have readback: "savedSubtaskRecord subtask ?s1 = Some ?row"
    by (simp add: savedSubtaskRecord_def)
  from created transacted(2)
  have "transaction (env_commit E) (createSubTask_callback E taskId subtask) s
      = (Inr response, s', history)"
    by simp
  then obtain evs where
    "createSubTask_callback E taskId subtask s = (Resolved (Inr response), s', evs)"
    by (rule transaction_Inr)
  then show ?thesis
  proof (rule createSubTask_callback_resolved)
    fix response' and saved :: subtask_row
    assume r: "Inr response = Inr response'"
      and "savedSubtaskRecord subtask ?s1 = Some saved"
      and "SubTask_id (swr_subtask (response_subtask response')) = st_id saved"
      and "tbl_task_raci s' = tbl_task_raci s"
      and "tbl_subtask_raci s' = tbl_subtask_raci s
             @ subtaskRacisOf (st_id saved) (env_trxNow E)
                 (filter (\<lambda>r. rr_entity_id r = taskId) (tbl_task_raci s))"
    with r readback fields fresh show ?thesis
      by (auto simp: raciPairs_def subtaskRacisOf_def filter_empty_conv comp_def)
  qed
qed

text \<open>The mutations of the RACI set of a subtask write the table of the subtasks only.\<close>

lemma subtask_raci_mutations_keep_task_raci:
  "tbl_task_raci (snd (saveSubTaskRaci now subtaskId userUuid letter s)) = tbl_task_raci s"
  "tbl_task_raci (snd (deleteAllForSubTask subtaskId s)) = tbl_task_raci s"
  "tbl_task_raci (fst (snd (copyFromTaskToSubTask commit taskId subtaskId s))) = tbl_task_raci s"
proof -
  show "tbl_task_raci (snd (saveSubTaskRaci now subtaskId userUuid letter s)) = tbl_task_raci s"
    by (auto simp: saveSubTaskRaci_def insert_subtask_raci_def split: option.splits)
  show "tbl_task_raci (snd (deleteAllForSubTask subtaskId s)) = tbl_task_raci s"
    by (simp add: deleteAllForSubTask_def)
  show "tbl_task_raci (fst (snd (copyFromTaskToSubTask commit taskId subtaskId s)))
      = tbl_task_raci s"
    by (auto simp: copyFromTaskToSubTask_def transaction_def performCopyFromTaskToSubTask_def
        Let_def split: sum.splits option.splits dest!: insertEach_subtask_raci)
qed

section \<open>updateSubTaskStatus and the progress of the parent task\<close>

lemma SubTaskKnexRepository_save_tasks:
  "tbl_task (snd (SubTaskKnexRepository_save gen now subtask s)) = tbl_task s"
  by (auto simp: SubTaskKnexRepository_save_def Let_def insert_subtask_def
      split: option.splits)

text \<open>With the Knex subtask repository, \<open>updateSubTaskStatus\<close> never writes the table of
  tasks: the only write of the use case is \<open>save\<close> on the subtask.\<close>

lemma updateSubTaskStatus_keeps_tasks:
  assumes "subtaskRepository_save P = SubTaskKnexRepository_save gen"
  shows "tbl_task (fst (snd (updateSubTaskStatus P E subtaskId done userUuid userRole s)))
           = tbl_task s"
proof (cases "subtaskRepository_findById P s subtaskId")
  case (Inl e)
  then show ?thesis by (simp add: updateSubTaskStatus_def)
next
  case found: (Inr subtask)
  show ?thesis
  proof (cases "canModifyTask P s (SubTask_taskId subtask) userUuid userRole")
    case (Inl e)
    with found show ?thesis by (simp add: updateSubTaskStatus_def)
  next
    case allowed: (Inr allowed)
    show ?thesis
    proof (cases allowed)
      case False
      with found allowed show ?thesis by (simp add: updateSubTaskStatus_def)
    next
      case True
      let ?subtask' = "if done then markCompleted (env_entityNow E) subtask
                       else markIncomplete (env_entityNow E) subtask"
      obtain r s1 where saved:
        "SubTaskKnexRepository_save gen (env_saveNow E) ?subtask' s = (r, s1)"
        by (cases "SubTaskKnexRepository_save gen (env_saveNow E) ?subtask' s") auto
      from SubTaskKnexRepository_save_tasks [of gen "env_saveNow E" ?subtask' s] saved
      have "tbl_task s1 = tbl_task s" by simp
      with found allowed True saved assms show ?thesis
        by (cases r) (simp_all add: updateSubTaskStatus_def Let_def)
    qed
  qed
qed

lemma findSubTask_exSubStore:
  "subtaskRepository_findById (knexPorts exEnv) (exSubStore 500) exOldSubId
     = Inr \<lparr> SubTask_id = exOldSubId, SubTask_taskId = exTaskId, SubTask_title = ''step1'',
             SubTask_description = None, SubTask_completed = False,
             SubTask_createdBy = exUser, SubTask_createdAt = 500, SubTask_updatedAt = 500 \<rparr>"
proof -
  have "UUID_isValid exOldSubId"
    by (simp add: exOldSubId_def UUID_isValid_def uuidShape_def isHexDigit_def eval_nat_numeral)
  moreover have "exOldSubId \<noteq> []" by (simp add: exOldSubId_def)
  ultimately show ?thesis
    by (simp add: knexPorts_def SubTaskKnexRepository_findById_def exSubStore_def first_def
        exOldSubtaskRow_def SubTask_toDomain_def SubTask_create_def new_SubTask_def
        isBlank_step1 nonempty_examples truthy_def new_UUID_valid UUID_isValid_examples)
qed

text \<open>
  Claim C1 fails on the code at the following input. The example task has progress 0 and
  one subtask, not completed. A user of role CP marks the subtask completed.
  \<open>updateSubTaskStatus\<close> succeeds, the stored subtask is completed, and the use case emits
  the notification of the subtask and then the one of the parent task; the progress of
  the parent task is neither recomputed nor written: it is 0 in the store and in the
  notification, whereas one completed subtask out of one makes 100.
\<close>

theorem updateSubTaskStatus_leaves_progress:
  "(\<exists>response.
      fst (updateSubTaskStatus (knexPorts exEnv) exEnv exOldSubId True exUser ''CP''
             (exSubStore 500)) = Inr response
      \<and> SubTask_completed (swr_subtask response))
   \<and> map st_completed
       (tbl_subtask (fst (snd (updateSubTaskStatus (knexPorts exEnv) exEnv exOldSubId True
          exUser ''CP'' (exSubStore 500))))) = [True]
   \<and> map tk_progress
       (tbl_task (fst (snd (updateSubTaskStatus (knexPorts exEnv) exEnv exOldSubId True
          exUser ''CP'' (exSubStore 500))))) = [Num 0]
   \<and> snd (snd (updateSubTaskStatus (knexPorts exEnv) exEnv exOldSubId True exUser ''CP''
        (exSubStore 500)))
      = [SubTaskUpdated
           \<lparr> SubTask_id = exOldSubId, SubTask_taskId = exTaskId, SubTask_title = ''step1'',
             SubTask_description = None, SubTask_completed = True,
             SubTask_createdBy = exUser, SubTask_createdAt = 500, SubTask_updatedAt = 1002 \<rparr>,
         TaskUpdated exTask]
   \<and> Task_progress exTask = Num 0"
proof -
  have valid: "UUID_isValid exOldSubId"
    by (simp add: exOldSubId_def UUID_isValid_def uuidShape_def isHexDigit_def eval_nat_numeral)
  have nonempty: "exOldSubId \<noteq> []" by (simp add: exOldSubId_def)
  have allowed: "canModifyTask (knexPorts exEnv) (exSubStore 500) exTaskId exUser ''CP''
      = Inr True"
    by (simp add: canModifyTask_def isElevated_def)
  let ?found = "\<lparr> SubTask_id = exOldSubId, SubTask_taskId = exTaskId,
      SubTask_title = ''step1'', SubTask_description = None, SubTask_completed = False,
      SubTask_createdBy = exUser, SubTask_createdAt = 500, SubTask_updatedAt = 500 \<rparr>"
  let ?stored = "\<lparr> SubTask_id = exOldSubId, SubTask_taskId = exTaskId,
      SubTask_title = ''step1'', SubTask_description = None, SubTask_completed = True,
      SubTask_createdBy = exUser, SubTask_createdAt = 500, SubTask_updatedAt = 1002 \<rparr>"
  let ?s' = "(exSubStore 500)\<lparr>tbl_subtask :=
      [(exOldSubtaskRow 500)\<lparr>st_completed := True, st_updated_at := 1002\<rparr>]\<rparr>"
  have saved: "subtaskRepository_save (knexPorts exEnv) (env_saveNow exEnv)
      (markCompleted (env_entityNow exEnv) ?found) (exSubStore 500) = (Inr ?stored, ?s')"
    using valid nonempty
    by (simp add: knexPorts_def SubTaskKnexRepository_save_def SubTask_toObject_def Let_def
        SubTaskKnexRepository_findById_def exSubStore_def first_def exOldSubtaskRow_def
        SubTask_toDomain_def SubTask_create_def new_SubTask_def isBlank_step1
        nonempty_examples truthy_def new_UUID_valid UUID_isValid_examples exEnv_def
        markCompleted_def)
  have parent: "taskRepository_findById (knexPorts exEnv) ?s' exTaskId = Inr exTask"
    by (simp add: knexPorts_def TaskKnexRepository_findById_def exSubStore_def exStore_def
        first_def Task_toDomain_exTaskRow) (simp add: exTaskRow_def)
  have raci: "raciRepository_findBySubTaskId (knexPorts exEnv) ?s'
      (toNumber (knexPorts exEnv) exOldSubId) = Inl (InvalidInputSyntax ''uuid'')"
    by (simp add: knexPorts_def RaciKnexRepository_findByNumber_def)
  have result: "updateSubTaskStatus (knexPorts exEnv) exEnv exOldSubId True exUser ''CP''
      (exSubStore 500)
      = (Inr \<lparr> swr_subtask = ?stored,
                swr_raci = \<lparr> map_R = [], map_A = [], map_C = [], map_I = [] \<rparr> \<rparr>,
         ?s', [SubTaskUpdated ?stored, TaskUpdated exTask])"
    by (simp add: updateSubTaskStatus_def findSubTask_exSubStore allowed saved parent raci
        Let_def SubTask_toObject_def Task_toObject_def raciMapOf_def)
  show ?thesis
    unfolding result
    by (simp add: exSubStore_def exStore_def exTaskRow_def exOldSubtaskRow_def exTask_def)
qed

text \<open>The trigger of the schema, where it runs, does not store the rounded percentage
  either: for one subtask done out of three it stores 33.33.\<close>

lemma fn_task_progress_one_of_three:
  "fn_task_progress [True, False, False] = 3333 / 100"
  by (simp add: fn_task_progress_def floor_eq_iff)

section \<open>The order of notification and commit\<close>


text \<open>
  Since the notification precedes the commit, a commit that fails comes too late for it.
  At the same input, in an environment whose store refuses the commit, \<open>createTask\<close>
  returns the failure of the commit and the store is the one before the call, but the
  notification of the created task has been emitted.
\<close>

lemma createTask_callback_env_commit:
  "createTask_callback (E\<lparr>env_commit := commit\<rparr>) input creatorUuid s
     = createTask_callback E input creatorUuid s"
  by (simp add: createTask_callback_def createTask_props_def Let_def
      split: sum.splits option.splits)

lemma createTask_commit_fails_after_notification:
  "createTask (knexPorts exEnvCommitFails) exEnvCommitFails (exCreateInput None) exUser
     (exStore Letter_C)
     = (Inl (RepositoryError ''commit''), exStore Letter_C,
        [TxBegin, TaskCreated exCreatedTask, TxRollback])"
proof -
  have profiles: "in_profilesImpacted (exCreateInput None) = Some [''TEC'']"
    by (simp add: exCreateInput_def)
  have commit: "env_commit exEnvCommitFails = Some (RepositoryError ''commit'')"
    by (simp add: exEnvCommitFails_def)
  from createTask_exCreateInput
  have "transaction None (createTask_callback exEnv (exCreateInput None) exUser)
      (exStore Letter_C)
      = (Inr \<lparr> response_task =
                \<lparr> twr_task = exCreatedTask,
                  twr_raci = \<lparr> map_R = [exUser], map_A = [], map_C = [], map_I = [] \<rparr>,
                  twr_subtasks = [], twr_profilesImpacted = [''TEC''] \<rparr>,
              response_message = TaskCreatedMessage \<rparr>,
        (exStore Letter_C)
          \<lparr> tbl_task := [exTaskRow, taskRowOf exCreatedTask],
            tbl_task_raci :=
              [exRaciRow Letter_C,
               \<lparr> rr_entity_id = env_uuid exEnv, rr_user_uuid = exUser, rr_letter = Letter_R,
                 rr_created_at = Some 1001, rr_updated_at = Some 1001 \<rparr>],
            tbl_task_profile :=
              [\<lparr> tp_task_id = env_uuid exEnv, tp_profile_code = ''TEC'',
                 tp_created_at = 1001 \<rparr>] \<rparr>,
        [TxBegin, TaskCreated exCreatedTask, TxCommit])"
    by (simp add: createTask_def profiles firstMissingProfile_exStore) (simp add: exEnv_def)
  then obtain evs where
    "createTask_callback exEnv (exCreateInput None) exUser (exStore Letter_C)
       = (Resolved (Inr \<lparr> response_task =
                \<lparr> twr_task = exCreatedTask,
                  twr_raci = \<lparr> map_R = [exUser], map_A = [], map_C = [], map_I = [] \<rparr>,
                  twr_subtasks = [], twr_profilesImpacted = [''TEC''] \<rparr>,
              response_message = TaskCreatedMessage \<rparr>),
          (exStore Letter_C)
          \<lparr> tbl_task := [exTaskRow, taskRowOf exCreatedTask],
            tbl_task_raci :=
              [exRaciRow Letter_C,
               \<lparr> rr_entity_id = env_uuid exEnv, rr_user_uuid = exUser, rr_letter = Letter_R,
                 rr_created_at = Some 1001, rr_updated_at = Some 1001 \<rparr>],
            tbl_task_profile :=
              [\<lparr> tp_task_id = env_uuid exEnv, tp_profile_code = ''TEC'',
                 tp_created_at = 1001 \<rparr>] \<rparr>, evs)"
    and "[TxBegin, TaskCreated exCreatedTask, TxCommit] = [TxBegin] @ evs @ [TxCommit]"
    by (rule transaction_Inr)
  then have "createTask_callback exEnvCommitFails (exCreateInput None) exUser (exStore Letter_C)
       = (Resolved (Inr \<lparr> response_task =
                \<lparr> twr_task = exCreatedTask,
                  twr_raci = \<lparr> map_R = [exUser], map_A = [], map_C = [], map_I = [] \<rparr>,
                  twr_subtasks = [], twr_profilesImpacted = [''TEC''] \<rparr>,
              response_message = TaskCreatedMessage \<rparr>),
          (exStore Letter_C)
          \<lparr> tbl_task := [exTaskRow, taskRowOf exCreatedTask],
            tbl_task_raci :=
              [exRaciRow Letter_C,
               \<lparr> rr_entity_id = env_uuid exEnv, rr_user_uuid = exUser, rr_letter = Letter_R,
                 rr_created_at = Some 1001, rr_updated_at = Some 1001 \<rparr>],
            tbl_task_profile :=
              [\<lparr> tp_task_id = env_uuid exEnv, tp_profile_code = ''TEC'',
                 tp_created_at = 1001 \<rparr>] \<rparr>, [TaskCreated exCreatedTask])"
    by (simp add: exEnvCommitFails_def createTask_callback_env_commit)
  from transaction_commit_fails
    [where callback = "createTask_callback exEnvCommitFails (exCreateInput None) exUser"
       and s = "exStore Letter_C" and e = "RepositoryError ''commit''", OF this]
  show ?thesis
    by (simp add: createTask_def profiles firstMissingProfile_exStore commit)
qed








end
